theory Spec2Isabelle
  imports Main
begin

section \<open>Data model of \<open>lib/services/amqp.service.ts\<close>\<close>

text \<open>
  The service publishes two lifecycle events on its static \<open>eventEmitter\<close> and listens to
  four events of the transport's connection object.
\<close>

datatype bus_event = AMQP_CONNECTION_DISCONNECTED | AMQP_CONNECTION_RECONNECT

datatype conn_event = connectionOpen | connectionError | disconnected | connectionClose

datatype level = Silly | Warn | Err

text \<open>
  What a call can throw: the plain \<open>Error\<close> of \<open>createConnection\<close> (with its message), the
  failure of the dependency-injection lookup \<open>moduleRef.get\<close> (the spec's
  \<open>ConnectionNotFoundError\<close>, with the token), a rejection by the transport, and the
  \<open>TypeError\<close> of a method call on \<open>undefined\<close>.
\<close>

datatype exn =
    Error string
  | ConnectionNotFoundError string
  | TransportError string
  | TypeError

text \<open>An async function resolves with a value, or with \<open>undefined\<close> after a bare \<open>return;\<close>.\<close>

datatype 'a retval = Value 'a | Undefined

record connection_options =
  initial_reconnect_delay :: "int option"
  reconnect_limit :: "int option"

record amqp_module_options =
  connectionUri :: "string option"
  connectionOptions :: "connection_options option"

text \<open>
  The transport library is outside the repository. One call of \<open>connection.open()\<close> is
  described by what the transport does with it: the events it dispatches on the connection
  while the call is pending (each with the result of \<open>ErrorMessage.fromContext\<close> on its
  context), whether the promise resolves or rejects, and what \<open>connection.isOpen()\<close>
  answers once it has settled. A transport gives the outcome of the n-th call.
\<close>

record open_outcome =
  dispatched :: "(conn_event \<times> string option) list"
  resolved :: bool
  is_open :: bool

type_synonym transport = "nat \<Rightarrow> open_outcome"

text \<open>
  Everything the service acts on: the emissions on the event bus (oldest first), the bus
  events that have a subscriber (\<open>emit\<close> returns whether there is one), the logger's
  output, the pending \<open>setTimeout\<close> callbacks of the close listener (oldest first, each by
  the milliseconds left until it is due), the number of \<open>open()\<close> calls issued, and the
  delays the retry loop asked to sleep.
\<close>

record world =
  bus :: "bus_event list"
  subscribed :: "bus_event list"
  logs :: "(level \<times> string) list"
  timers :: "nat list"
  opens :: nat
  sleeps :: "int list"

text \<open>
  A connection carries the token that its listeners close over and, in registration
  order, the events for which \<open>connection.on\<close> registered a listener. The container id and
  the merge of the parsed URI with \<open>connectionOptions\<close> are passed to the transport and
  read nowhere else; they are left out.
\<close>

record connection =
  token :: string
  listeners :: "conn_event list"

section \<open>Effects\<close>

definition logger :: "level \<Rightarrow> string \<Rightarrow> world \<Rightarrow> world" where
  "logger l m w = w\<lparr>logs := logs w @ [(l, m)]\<rparr>"

definition emit :: "bus_event \<Rightarrow> world \<Rightarrow> bool \<times> world" where
  "emit e w = (e \<in> set (subscribed w), w\<lparr>bus := bus w @ [e]\<rparr>)"

definition setTimeout :: "nat \<Rightarrow> world \<Rightarrow> world" where
  "setTimeout ms w = w\<lparr>timers := timers w @ [ms]\<rparr>"

definition truthy :: "string option \<Rightarrow> bool" where
  "truthy m = (case m of None \<Rightarrow> False | Some s \<Rightarrow> s \<noteq> [])"

definition container_createConnection :: "string \<Rightarrow> connection" where
  "container_createConnection connectionToken = \<lparr>token = connectionToken, listeners = []\<rparr>"

definition on :: "conn_event \<Rightarrow> connection \<Rightarrow> connection" where
  "on ev c = c\<lparr>listeners := listeners c @ [ev]\<rparr>"

section \<open>The listeners registered by \<open>createConnection\<close>\<close>

text \<open>
  The body of the listener registered for each event (lines 39 to 77), with the connection
  token it closes over and the error message of the event's context. The close listener
  only schedules its callback; the callback is \<open>reopen_callback\<close> below.
\<close>

fun listener :: "string \<Rightarrow> conn_event \<Rightarrow> string option \<Rightarrow> world \<Rightarrow> world" where
  "listener connectionToken connectionOpen ctx w =
     logger Silly (''Connection opened: '' @ connectionToken) w"
| "listener connectionToken connectionError ctx w =
     logger Err (''Connection error: '' @ connectionToken) w"
| "listener connectionToken disconnected ctx w =
     (let w1 = logger Warn (''Connection closed by peer: '' @ connectionToken) w;
          (emitted, w2) = emit AMQP_CONNECTION_DISCONNECTED w1
      in if \<not> emitted then logger Warn ''disconnect event not emitted'' w2 else w2)"
| "listener connectionToken connectionClose ctx w =
     (let w1 = (if truthy ctx
                then logger Err (''Connection closed: '' @ connectionToken) w
                else logger Warn (''Connection closed: '' @ connectionToken) w)
      in setTimeout 1000 w1)"

text \<open>Dispatching an event runs, in registration order, every listener registered for it.\<close>

definition dispatch :: "connection \<Rightarrow> conn_event \<Rightarrow> string option \<Rightarrow> world \<Rightarrow> world" where
  "dispatch c ev ctx w =
     fold (\<lambda>l. if l = ev then listener (token c) l ctx else id) (listeners c) w"

text \<open>
  \<open>await connection.open()\<close>: the call is counted, the transport decides its outcome, and
  the events the transport dispatches meanwhile reach the listeners.
\<close>

definition connection_open :: "transport \<Rightarrow> connection \<Rightarrow> world \<Rightarrow> open_outcome \<times> world" where
  "connection_open tr c w =
     (let out = tr (opens w)
      in (out, fold (\<lambda>(ev, ctx). dispatch c ev ctx) (dispatched out)
                 (w\<lparr>opens := Suc (opens w)\<rparr>)))"

text \<open>
  The callback of the close listener (lines 61 to 76): a synthesized \<open>disconnected\<close>
  dispatch with no context, then one \<open>open()\<close>; \<open>then\<close> emits the reconnect event,
  \<open>catch\<close> logs.
\<close>

definition reopen_callback :: "transport \<Rightarrow> connection \<Rightarrow> world \<Rightarrow> world" where
  "reopen_callback tr c w =
     (let w1 = dispatch c disconnected None w;
          (out, w2) = connection_open tr c w1
      in if resolved out
         then (let w3 = logger Silly ''connection successfully reopened'' w2;
                   (emitted, w4) = emit AMQP_CONNECTION_RECONNECT w3
               in if \<not> emitted then logger Warn ''reconnect event not emitted'' w4 else w4)
         else logger Err ''reopening connection failed with error'' w2)"

text \<open>
  A step of the event loop in which the oldest pending timer fires: it leaves the pending
  list and its callback runs. All timers are set with the same delay, so the oldest is the
  one due first. The step does not say how long the loop waited for it; the timers behind
  it keep their entries.
\<close>

definition fire_timer :: "transport \<Rightarrow> connection \<Rightarrow> world \<Rightarrow> world" where
  "fire_timer tr c w =
     (case timers w of [] \<Rightarrow> w | ms # rest \<Rightarrow> reopen_callback tr c (w\<lparr>timers := rest\<rparr>))"

section \<open>Time passing while the retry loop sleeps\<close>

text \<open>
  The retry loop awaits a timer of its own (line 87). While it waits the event loop goes
  on, and the callbacks that the close listener scheduled during an earlier \<open>open()\<close>
  become due. Time is counted in milliseconds. With every millisecond each pending timer
  has one less to wait, and the timers that have nothing left fire, oldest first. A timer
  that becomes due at the very millisecond the sleep ends fires before the loop goes on.
  A call of \<open>open()\<close> is taken to settle at once: no timer fires while one is pending, so
  two calls never overlap (what the transport does with overlapping calls is not in the
  sources).
\<close>

definition fire_due :: "transport \<Rightarrow> connection \<Rightarrow> world \<Rightarrow> world" where
  "fire_due tr c w =
     fold (\<lambda>t v. reopen_callback tr c (v\<lparr>timers := remove1 0 (timers v)\<rparr>))
       (filter (\<lambda>t. t = 0) (timers w)) w"

fun elapse :: "transport \<Rightarrow> connection \<Rightarrow> nat \<Rightarrow> world \<Rightarrow> world" where
  "elapse tr c 0 w = w"
| "elapse tr c (Suc n) w =
     elapse tr c n (fire_due tr c (w\<lparr>timers := map (\<lambda>t. t - 1) (timers w)\<rparr>))"

text \<open>
  \<open>await new Promise(resolve => setTimeout(resolve, ms))\<close>. The runtime sets a delay below
  1 or above 2147483647 to 1.
\<close>

definition sleep :: "transport \<Rightarrow> connection \<Rightarrow> int \<Rightarrow> world \<Rightarrow> world" where
  "sleep tr c ms w =
     elapse tr c (if ms < 1 \<or> 2147483647 < ms then 1 else nat ms)
       (w\<lparr>sleeps := sleeps w @ [ms]\<rparr>)"

section \<open>\<open>createConnection\<close>\<close>

definition reconnect_delay :: "amqp_module_options \<Rightarrow> int" where
  "reconnect_delay options =
     (case connectionOptions options of None \<Rightarrow> 3000
      | Some co \<Rightarrow> (case initial_reconnect_delay co of None \<Rightarrow> 3000 | Some d \<Rightarrow> d))"

definition retry_limit :: "amqp_module_options \<Rightarrow> int" where
  "retry_limit options =
     (case connectionOptions options of None \<Rightarrow> 3
      | Some co \<Rightarrow> (case reconnect_limit co of None \<Rightarrow> 3 | Some l \<Rightarrow> l))"

text \<open>
  The \<open>do ... while\<close> loop of lines 84 to 98, entered with the current value of \<open>retry\<close>.
  The result is \<open>True\<close> when the loop ended in the bare \<open>return;\<close> of line 92 and \<open>False\<close>
  when it was left through its condition.
\<close>

function reopen_loop ::
  "transport \<Rightarrow> connection \<Rightarrow> amqp_module_options \<Rightarrow> int \<Rightarrow> world \<Rightarrow> bool \<times> world" where
  "reopen_loop tr c options retry w =
     (let w1 = sleep tr c (reconnect_delay options)
                 (logger Silly ''reopening connection...'' w);
          (out, w2) = connection_open tr c w1
      in if resolved out \<and> is_open out
         then (True, snd (emit AMQP_CONNECTION_RECONNECT w2))
         else (let w3 = (if resolved out then w2
                         else logger Err (''Connection reopen failed: '' @ token c) w2)
               in if retry + 1 < retry_limit options \<and> \<not> is_open out
                  then reopen_loop tr c options (retry + 1) w3
                  else (False, w3)))"
  by pat_completeness auto
termination
  by (relation "measure (\<lambda>(tr, c, options, retry, w). nat (retry_limit options - retry))") auto

declare reopen_loop.simps [simp del]

text \<open>
  \<open>getConnectionToken\<close> lives in \<open>lib/utils\<close>, outside the sources at hand, and is a
  parameter: it maps the module options, or a connection name, or neither, to a token.

  \<open>createConnection\<close> (lines 25 to 101) returns what the promise settles with, thrown
  or resolved, and the world it leaves. The timers of the close listener that become due
  while the retry loop sleeps fire there; those that are not yet due when the call
  returns stay pending in that world, for the event loop below.
\<close>

type_synonym token_of = "(amqp_module_options + string) option \<Rightarrow> string"

definition createConnection ::
  "token_of \<Rightarrow> transport \<Rightarrow> amqp_module_options option \<Rightarrow> world
     \<Rightarrow> (exn + connection retval) \<times> world" where
  "createConnection getConnectionToken tr options w =
     (let connectionToken = getConnectionToken (map_option Inl options);
          w0 = logger Silly (''Connection creating: '' @ connectionToken) w
      in case options of
           None \<Rightarrow> (Inl (Error (''Invalid connection options: '' @ connectionToken)), w0)
         | Some opts \<Rightarrow>
             (let connection =
                    on connectionClose (on disconnected (on connectionError
                      (on connectionOpen (container_createConnection connectionToken))));
                  (out, w1) = connection_open tr connection w0
              in if resolved out then (Inr (Value connection), w1)
                 else (let w2 = logger Err (''Connection open failed: '' @ connectionToken) w1;
                           (returned, w3) = reopen_loop tr connection opts 0 w2
                       in if returned then (Inr Undefined, w3)
                          else (Inr (Value connection), w3))))"

section \<open>The event loop around one connection\<close>

text \<open>
  After \<open>createConnection\<close> the service only reacts: to an event that the transport
  dispatches on the connection, or to a pending timer that fires.
\<close>

datatype step = Dispatch conn_event "string option" | TimerFires

fun react :: "transport \<Rightarrow> connection \<Rightarrow> step \<Rightarrow> world \<Rightarrow> world" where
  "react tr c (Dispatch ev ctx) w = dispatch c ev ctx w"
| "react tr c TimerFires w = fire_timer tr c w"

definition run :: "transport \<Rightarrow> connection \<Rightarrow> step list \<Rightarrow> world \<Rightarrow> world" where
  "run tr c steps w = fold (react tr c) steps w"

section \<open>\<open>createSender\<close>\<close>

datatype sender_event = senderOpen | senderClose | senderError | senderDraining

record sender =
  sender_name :: string
  sender_listeners :: "sender_event list"

record 'so create_sender_options =
  connectionName :: "string option"
  senderOptions :: 'so

text \<open>
  \<open>moduleRef.get(token, { strict: false })\<close> looks the provider up in the
  dependency-injection container, a map from tokens to what \<open>createConnection\<close> resolved
  with, and throws when there is none.
\<close>

definition moduleRef_get :: "(string \<rightharpoonup> 'a) \<Rightarrow> string \<Rightarrow> exn + 'a" where
  "moduleRef_get moduleRef connectionToken =
     (case moduleRef connectionToken of
        None \<Rightarrow> Inl (ConnectionNotFoundError connectionToken)
      | Some v \<Rightarrow> Inr v)"

definition sender_on :: "sender_event \<Rightarrow> sender \<Rightarrow> sender" where
  "sender_on ev s = s\<lparr>sender_listeners := sender_listeners s @ [ev]\<rparr>"

text \<open>The four listeners of a sender only log (lines 112 to 127).\<close>

fun sender_listener :: "sender_event \<Rightarrow> sender \<Rightarrow> world \<Rightarrow> world" where
  "sender_listener senderOpen s w = logger Silly (''Sender opened: '' @ sender_name s) w"
| "sender_listener senderClose s w = logger Warn (''Sender closed: '' @ sender_name s) w"
| "sender_listener senderError s w = logger Err (''Sender error: '' @ sender_name s) w"
| "sender_listener senderDraining s w =
     logger Silly (''Sender requested to drain its credits by remote peer: '' @ sender_name s) w"

text \<open>
  The transport's \<open>connection.createAwaitableSender\<close> is a parameter: it resolves with a
  sender or rejects with a reason.
\<close>

definition createSender ::
  "token_of \<Rightarrow> (string \<rightharpoonup> connection retval) \<Rightarrow> (connection \<Rightarrow> 'so \<Rightarrow> string + sender)
     \<Rightarrow> 'so create_sender_options \<Rightarrow> exn + sender" where
  "createSender getConnectionToken moduleRef createAwaitableSender options =
     (let connectionToken = getConnectionToken (map_option Inr (connectionName options))
      in case moduleRef_get moduleRef connectionToken of
           Inl e \<Rightarrow> Inl e
         | Inr Undefined \<Rightarrow> Inl TypeError
         | Inr (Value connection) \<Rightarrow>
             (case createAwaitableSender connection (senderOptions options) of
                Inl reason \<Rightarrow> Inl (TransportError reason)
              | Inr sender \<Rightarrow>
                  Inr (sender_on senderDraining (sender_on senderError
                        (sender_on senderClose (sender_on senderOpen sender))))))"

section \<open>\<open>createReceiver\<close>\<close>

datatype receiver_event =
  receiverOpen | receiverClose | receiverDrained | receiverFlow | settled

record receiver =
  receiver_name :: string
  credit :: int
  receiver_listeners :: "receiver_event list"

record 'ro create_receiver_options =
  connectionToken :: string
  credits :: int
  receiverOptions :: 'ro

text \<open>
  \<open>receiver.addCredit(n)\<close> of the transport raises the link's credit by \<open>n\<close> when \<open>n\<close> is
  positive, and does nothing otherwise.
\<close>

definition addCredit :: "int \<Rightarrow> receiver \<Rightarrow> receiver" where
  "addCredit n r = (if 0 < n then r\<lparr>credit := credit r + n\<rparr> else r)"

definition receiver_on :: "receiver_event \<Rightarrow> receiver \<Rightarrow> receiver" where
  "receiver_on ev r = r\<lparr>receiver_listeners := receiver_listeners r @ [ev]\<rparr>"

text \<open>
  The listeners of lines 136 to 160; \<open>prefetch\<close> is the value of \<open>credits\<close> that they
  close over. Only the open listener touches the receiver.
\<close>

fun receiver_listener ::
  "int \<Rightarrow> receiver_event \<Rightarrow> receiver \<times> world \<Rightarrow> receiver \<times> world" where
  "receiver_listener prefetch receiverOpen (r, w) =
     (let w1 = logger Silly (''Receiver opened: '' @ receiver_name r) w;
          currentCredits = credit r
      in if currentCredits < prefetch
         then (addCredit (prefetch - currentCredits) r,
               logger Silly (''Receiver adding credits: '' @ receiver_name r) w1)
         else (r, w1))"
| "receiver_listener prefetch receiverClose (r, w) =
     (r, logger Silly (''Receiver closed: '' @ receiver_name r) w)"
| "receiver_listener prefetch receiverDrained (r, w) =
     (r, logger Silly (''Remote peer for receiver drained: '' @ receiver_name r) w)"
| "receiver_listener prefetch receiverFlow (r, w) =
     (r, logger Silly (''Flow event received for receiver: '' @ receiver_name r) w)"
| "receiver_listener prefetch settled (r, w) =
     (r, logger Silly (''Message has been settled by remote: '' @ receiver_name r) w)"

definition receiver_dispatch ::
  "int \<Rightarrow> receiver_event \<Rightarrow> receiver \<times> world \<Rightarrow> receiver \<times> world" where
  "receiver_dispatch prefetch ev rw =
     fold (\<lambda>l. if l = ev then receiver_listener prefetch l else id)
       (receiver_listeners (fst rw)) rw"

text \<open>
  The transport's \<open>connection.createReceiver\<close> is a parameter: it resolves with the
  attached receiver or rejects with a reason.
\<close>

definition createReceiver ::
  "(string \<rightharpoonup> connection retval) \<Rightarrow> (connection \<Rightarrow> 'ro \<Rightarrow> string + receiver)
     \<Rightarrow> 'ro create_receiver_options \<Rightarrow> world \<Rightarrow> (exn + receiver) \<times> world" where
  "createReceiver moduleRef connection_createReceiver options w =
     (case moduleRef_get moduleRef (connectionToken options) of
        Inl e \<Rightarrow> (Inl e, w)
      | Inr Undefined \<Rightarrow> (Inl TypeError, w)
      | Inr (Value connection) \<Rightarrow>
          (case connection_createReceiver connection (receiverOptions options) of
             Inl reason \<Rightarrow> (Inl (TransportError reason), w)
           | Inr attached \<Rightarrow>
               (let receiver = addCredit (credits options) attached;
                    receiver = receiver_on settled (receiver_on receiverFlow
                      (receiver_on receiverDrained (receiver_on receiverClose
                        (receiver_on receiverOpen receiver))))
                in (Inr receiver, logger Silly ''Receiver created'' w))))"

section \<open>Deliveries, dispositions and open confirmations on a receiver\<close>

datatype link_event = Delivery | Disposition | OpenConfirmation

text \<open>
  A receiver, the number of delivered messages that await their disposition, and the world
  its listeners log to.
\<close>

record link_state =
  link_receiver :: receiver
  in_flight :: nat
  link_world :: world

text \<open>
  Modelled from the spec: the Dispatcher (section 4.6) and the transport's accounting of
  link credit are not among the sources. Credit is the number of messages the receiver has
  authorized its peer to deliver, so a delivery arrives only while credit is left and uses
  one unit of it; the Dispatcher settles a delivered message once and then replenishes
  exactly one unit of credit on the receiver. The open confirmation is the transport's
  \<open>receiverOpen\<close> event, which runs the listener of \<open>createReceiver\<close>; \<open>prefetch\<close> is the
  value of \<open>credits\<close> that the listener closes over.
\<close>

fun link_step :: "int \<Rightarrow> link_state \<Rightarrow> link_event \<Rightarrow> link_state" where
  "link_step prefetch s Delivery =
     (if 0 < credit (link_receiver s)
      then s\<lparr>link_receiver := (link_receiver s)\<lparr>credit := credit (link_receiver s) - 1\<rparr>,
             in_flight := Suc (in_flight s)\<rparr>
      else s)"
| "link_step prefetch s Disposition =
     (if 0 < in_flight s
      then s\<lparr>link_receiver := addCredit 1 (link_receiver s), in_flight := in_flight s - 1\<rparr>
      else s)"
| "link_step prefetch s OpenConfirmation =
     (let (r, w) = receiver_dispatch prefetch receiverOpen (link_receiver s, link_world s)
      in s\<lparr>link_receiver := r, link_world := w\<rparr>)"

definition link_run :: "int \<Rightarrow> link_state \<Rightarrow> link_event list \<Rightarrow> link_state" where
  "link_run prefetch s evs = foldl (link_step prefetch) s evs"

section \<open>Reading the event bus\<close>

text \<open>
  No \<open>AMQP_CONNECTION_RECONNECT\<close> is on the bus without an
  \<open>AMQP_CONNECTION_DISCONNECTED\<close> before it. The bus carries only these two events, so
  it is enough to look at the oldest one.
\<close>

fun reconnect_announced :: "bus_event list \<Rightarrow> bool" where
  "reconnect_announced [] = True"
| "reconnect_announced (AMQP_CONNECTION_DISCONNECTED # es) = True"
| "reconnect_announced (AMQP_CONNECTION_RECONNECT # es) = False"

text \<open>The events that the transport dispatches on the connection, as steps of the event loop.\<close>

definition dispatches :: "(conn_event \<times> string option) list \<Rightarrow> step list" where
  "dispatches evs = map (\<lambda>(ev, ctx). Dispatch ev ctx) evs"

text \<open>How many steps of a run are a \<open>disconnected\<close> event dispatched by the transport.\<close>

fun disconnected_steps :: "step list \<Rightarrow> nat" where
  "disconnected_steps [] = 0"
| "disconnected_steps (Dispatch ev ctx # steps) =
     (if ev = disconnected then Suc (disconnected_steps steps) else disconnected_steps steps)"
| "disconnected_steps (TimerFires # steps) = disconnected_steps steps"

text \<open>
  How many \<open>disconnected\<close> events the transport dispatches while the \<open>open()\<close> calls
  number \<open>a\<close> up to, not including, number \<open>b\<close> are pending.
\<close>

definition raised_during :: "transport \<Rightarrow> nat \<Rightarrow> nat \<Rightarrow> nat" where
  "raised_during tr a b =
     sum_list (map (\<lambda>i. count_list (map fst (dispatched (tr i))) disconnected) [a..<b])"

section \<open>Concrete inputs\<close>

definition default_token :: token_of where
  "default_token x = ''default''"

definition idle_world :: world where
  "idle_world = \<lparr>bus = [], subscribed = [], logs = [], timers = [], opens = 0, sleeps = []\<rparr>"

definition plain_options :: amqp_module_options where
  "plain_options = \<lparr>connectionUri = None, connectionOptions = None\<rparr>"

definition limited_options :: "int \<Rightarrow> amqp_module_options" where
  "limited_options l =
     \<lparr>connectionUri = None,
      connectionOptions = Some \<lparr>initial_reconnect_delay = None, reconnect_limit = Some l\<rparr>\<rparr>"

definition rejected :: open_outcome where
  "rejected = \<lparr>dispatched = [], resolved = False, is_open = False\<rparr>"

definition opened :: open_outcome where
  "opened = \<lparr>dispatched = [(connectionOpen, None)], resolved = True, is_open = True\<rparr>"

text \<open>A broker that is never reachable.\<close>

definition unreachable :: transport where
  "unreachable n = rejected"

text \<open>A broker that refuses the first \<open>open()\<close> and accepts every later one.\<close>

definition late_broker :: transport where
  "late_broker n = (if n = 0 then rejected else opened)"

text \<open>A broker that accepts the first \<open>open()\<close> and refuses every later one.\<close>

definition lost_broker :: transport where
  "lost_broker n = (if n = 0 then opened else rejected)"

text \<open>A broker that accepts every \<open>open()\<close>.\<close>

definition steady_broker :: transport where
  "steady_broker n = opened"

text \<open>
  A broker that refuses the first \<open>open()\<close>, raising \<open>disconnected\<close> as it does so, and
  accepts every later one.
\<close>

definition refusing_once :: transport where
  "refusing_once n =
     (if n = 0
      then \<lparr>dispatched = [(disconnected, Some ''ECONNREFUSED'')], resolved = False,
            is_open = False\<rparr>
      else opened)"

text \<open>
  A broker that is never reachable and raises \<open>connectionClose\<close> at every refused
  \<open>open()\<close>, and options with one retry after 2500 ms.
\<close>

definition noisy :: transport where
  "noisy n = \<lparr>dispatched = [(connectionClose, None)], resolved = False, is_open = False\<rparr>"

definition noisy_options :: amqp_module_options where
  "noisy_options = \<lparr>connectionUri = None,
      connectionOptions = Some \<lparr>initial_reconnect_delay = Some 2500, reconnect_limit = Some 1\<rparr>\<rparr>"

definition default_connection :: connection where
  "default_connection =
     \<lparr>token = ''default'',
      listeners = [connectionOpen, connectionError, disconnected, connectionClose]\<rparr>"

definition fresh_receiver :: receiver where
  "fresh_receiver = \<lparr>receiver_name = ''demo1'', credit = 0, receiver_listeners = []\<rparr>"

definition fresh_sender :: sender where
  "fresh_sender = \<lparr>sender_name = ''demo1'', sender_listeners = []\<rparr>"

text \<open>
  A container in which the default token is bound to a connection, an awaitable-sender and
  a receiver factory that never reject, and options for them.
\<close>

definition unopened_registry :: "string \<rightharpoonup> connection retval" where
  "unopened_registry = [''default'' \<mapsto> Value default_connection]"

definition willing_link :: "connection \<Rightarrow> unit \<Rightarrow> string + sender" where
  "willing_link c so = Inr fresh_sender"

definition default_sender_options :: "unit create_sender_options" where
  "default_sender_options = \<lparr>connectionName = None, senderOptions = ()\<rparr>"

definition attach_link :: "connection \<Rightarrow> unit \<Rightarrow> string + receiver" where
  "attach_link c ro = Inr fresh_receiver"

text \<open>A transport that attaches every receiver with a credit window of 1000 already granted.\<close>

definition attach_windowed :: "connection \<Rightarrow> unit \<Rightarrow> string + receiver" where
  "attach_windowed c ro = Inr (fresh_receiver\<lparr>credit := 1000\<rparr>)"

definition demo_receiver_options :: "unit create_receiver_options" where
  "demo_receiver_options = \<lparr>connectionToken = ''default'', credits = 2, receiverOptions = ()\<rparr>"

section \<open>Auxiliary facts\<close>

lemma opens_listener: "opens (listener tok ev ctx w) = opens w"
  by (cases ev) (simp_all add: logger_def emit_def setTimeout_def Let_def)

lemma opens_fold_listener:
  "opens (fold (\<lambda>l. if l = ev then listener tok l ctx else id) ls w) = opens w"
  by (induction ls arbitrary: w) (simp_all add: opens_listener)

lemma opens_dispatch: "opens (dispatch c ev ctx w) = opens w"
  by (simp add: dispatch_def opens_fold_listener)

lemma opens_fold_dispatch:
  "opens (fold (\<lambda>(ev, ctx). dispatch c ev ctx) evs w) = opens w"
  by (induction evs arbitrary: w) (simp_all add: case_prod_beta opens_dispatch)

lemma fst_connection_open: "fst (connection_open tr c w) = tr (opens w)"
  by (simp add: connection_open_def Let_def)

lemma opens_connection_open: "opens (snd (connection_open tr c w)) = Suc (opens w)"
  by (simp add: connection_open_def Let_def opens_fold_dispatch)

text \<open>Each event has exactly one listener on a connection made by \<open>createConnection\<close>.\<close>

lemma dispatch_registered:
  "dispatch \<lparr>token = tok, listeners = [connectionOpen, connectionError, disconnected, connectionClose]\<rparr>
     ev ctx w = listener tok ev ctx w"
  by (cases ev) (simp_all add: dispatch_def)

lemma createConnection_value:
  assumes "fst (createConnection gct tr options w) = Inr (Value c)"
  shows "c = \<lparr>token = gct (map_option Inl options),
              listeners = [connectionOpen, connectionError, disconnected, connectionClose]\<rparr>"
  using assms
  by (auto simp add: createConnection_def Let_def on_def container_createConnection_def
      split: option.splits prod.splits if_splits)

lemma bus_listener:
  "bus (listener tok ev ctx w) =
     (if ev = disconnected then bus w @ [AMQP_CONNECTION_DISCONNECTED] else bus w)"
  by (cases ev) (simp_all add: logger_def emit_def setTimeout_def Let_def)

lemma timers_listener:
  "timers (listener tok ev ctx w) =
     (if ev = connectionClose then timers w @ [1000] else timers w)"
  by (cases ev) (simp_all add: logger_def emit_def setTimeout_def Let_def)

lemma bus_fold_listeners:
  "disconnected \<notin> fst ` set evs \<Longrightarrow>
   bus (fold (\<lambda>(ev, ctx). listener tok ev ctx) evs w) = bus w"
  by (induction evs arbitrary: w) (auto simp add: bus_listener)

lemma timers_fold_listeners:
  "connectionClose \<notin> fst ` set evs \<Longrightarrow>
   timers (fold (\<lambda>(ev, ctx). listener tok ev ctx) evs w) = timers w"
  by (induction evs arbitrary: w) (auto simp add: timers_listener)

text \<open>Only the close listener sets a timer, whatever listeners a connection has.\<close>

lemma timers_fold_listener_other:
  "ev \<noteq> connectionClose \<Longrightarrow>
   timers (fold (\<lambda>l. if l = ev then listener tok l ctx else id) ls w) = timers w"
  by (induction ls arbitrary: w) (simp_all add: timers_listener del: listener.simps)

lemma timers_dispatch_other:
  "ev \<noteq> connectionClose \<Longrightarrow> timers (dispatch c ev ctx w) = timers w"
  by (simp add: dispatch_def timers_fold_listener_other)

lemma timers_fold_dispatch_quiet:
  "connectionClose \<notin> fst ` set evs \<Longrightarrow>
   timers (fold (\<lambda>(ev, ctx). dispatch c ev ctx) evs w) = timers w"
  by (induction evs arbitrary: w) (auto simp add: timers_dispatch_other)

lemma timers_connection_open_quiet:
  assumes "connectionClose \<notin> fst ` set (dispatched (tr (opens w)))"
  shows "timers (snd (connection_open tr c w)) = timers w"
  using timers_fold_dispatch_quiet [OF assms, of c "w\<lparr>opens := Suc (opens w)\<rparr>"]
  by (simp add: connection_open_def Let_def)

text \<open>With no timer pending, time passes and nothing happens.\<close>

lemma fire_due_idle: "timers w = [] \<Longrightarrow> fire_due tr c w = w"
  by (simp add: fire_due_def)

lemma elapse_idle: "timers w = [] \<Longrightarrow> elapse tr c n w = w"
proof (induction n)
  case 0
  show ?case by simp
next
  case (Suc n)
  from Suc.prems have same: "w\<lparr>timers := []\<rparr> = w"
    by (cases w) simp
  have "elapse tr c (Suc n) w = elapse tr c n (fire_due tr c (w\<lparr>timers := []\<rparr>))"
    using Suc.prems by simp
  also have "\<dots> = elapse tr c n w"
    by (simp only: same fire_due_idle [OF Suc.prems])
  also have "\<dots> = w"
    by (rule Suc.IH [OF Suc.prems])
  finally show ?case .
qed

lemma sleep_idle: "timers w = [] \<Longrightarrow> sleep tr c ms w = w\<lparr>sleeps := sleeps w @ [ms]\<rparr>"
  by (simp add: sleep_def elapse_idle)

text \<open>
  Against a transport that rejects every \<open>open()\<close>, leaves the connection closed and
  raises no \<open>connectionClose\<close>, and with no timer pending, the loop is left through its
  condition, after one attempt or as many as the limit allows, and still no timer is
  pending.
\<close>

lemma reopen_loop_failing:
  assumes fail: "\<And>n. \<not> resolved (tr n) \<and> \<not> is_open (tr n)"
    and quiet: "\<And>n. connectionClose \<notin> fst ` set (dispatched (tr n))"
    and idle: "timers w = []"
  shows "fst (reopen_loop tr c options retry w) = False \<and>
         opens (snd (reopen_loop tr c options retry w)) =
           opens w + nat (max 1 (retry_limit options - retry)) \<and>
         timers (snd (reopen_loop tr c options retry w)) = []"
  using fail quiet idle
proof (induction tr c options retry w rule: reopen_loop.induct)
  case (1 tr c options retry w)
  define w1 where "w1 = sleep tr c (reconnect_delay options)
                          (logger Silly ''reopening connection...'' w)"
  have w1: "w1 = (logger Silly ''reopening connection...'' w)
                   \<lparr>sleeps := sleeps w @ [reconnect_delay options]\<rparr>"
    using "1.prems"(3) by (simp add: w1_def sleep_idle logger_def)
  obtain out w2 where co: "connection_open tr c w1 = (out, w2)"
    by (cases "connection_open tr c w1")
  have out: "out = tr (opens w1)"
    using co fst_connection_open [of tr c w1] by simp
  have nres: "\<not> resolved out" and nopen: "\<not> is_open out"
    using "1.prems"(1) out by simp_all
  have ow1: "opens w1 = opens w" and tw1: "timers w1 = []"
    using "1.prems"(3) by (simp_all add: w1 logger_def)
  have ow2: "opens w2 = Suc (opens w)"
    using co opens_connection_open [of tr c w1] ow1 by simp
  have tw2: "timers w2 = []"
    using co timers_connection_open_quiet [of tr w1 c] "1.prems"(2) tw1 by simp
  define w3 where "w3 = (if resolved out then w2
                         else logger Err (''Connection reopen failed: '' @ token c) w2)"
  have ow3: "opens w3 = Suc (opens w)" and tw3: "timers w3 = []"
    by (simp_all add: w3_def logger_def ow2 tw2)
  show ?case
  proof (cases "retry + 1 < retry_limit options")
    case True
    have unfold: "reopen_loop tr c options retry w = reopen_loop tr c options (retry + 1) w3"
      using reopen_loop.simps [of tr c options retry w]
      by (simp add: Let_def w1_def [symmetric] co nres nopen True w3_def)
    have IH: "fst (reopen_loop tr c options (retry + 1) w3) = False \<and>
              opens (snd (reopen_loop tr c options (retry + 1) w3)) =
                opens w3 + nat (max 1 (retry_limit options - (retry + 1))) \<and>
              timers (snd (reopen_loop tr c options (retry + 1) w3)) = []"
      using "1.IH" [OF w1_def refl co [symmetric] _ w3_def] nres nopen True "1.prems"(1,2) tw3
      by simp
    from True have "nat (max 1 (retry_limit options - retry)) =
        Suc (nat (max 1 (retry_limit options - (retry + 1))))"
      by simp
    with IH unfold ow3 show ?thesis by simp
  next
    case False
    have unfold: "reopen_loop tr c options retry w = (False, w3)"
      using reopen_loop.simps [of tr c options retry w]
      by (simp add: Let_def w1_def [symmetric] co nres nopen False w3_def)
    from False have "nat (max 1 (retry_limit options - retry)) = 1"
      by simp
    with unfold ow3 tw3 show ?thesis by simp
  qed
qed

lemma dispatch_registered_fun:
  "dispatch \<lparr>token = tok, listeners = [connectionOpen, connectionError, disconnected, connectionClose]\<rparr>
     = listener tok"
  by (intro ext) (rule dispatch_registered)

lemma bus_connection_open:
  assumes "disconnected \<notin> fst ` set (dispatched (tr (opens w)))"
  shows "bus (snd (connection_open tr
      \<lparr>token = tok, listeners = [connectionOpen, connectionError, disconnected, connectionClose]\<rparr>
      w)) = bus w"
  using bus_fold_listeners [OF assms, of tok "w\<lparr>opens := Suc (opens w)\<rparr>"]
  by (simp add: connection_open_def Let_def dispatch_registered_fun)

lemma timers_connection_open:
  assumes "connectionClose \<notin> fst ` set (dispatched (tr (opens w)))"
  shows "timers (snd (connection_open tr
      \<lparr>token = tok, listeners = [connectionOpen, connectionError, disconnected, connectionClose]\<rparr>
      w)) = timers w"
  using timers_fold_listeners [OF assms, of tok "w\<lparr>opens := Suc (opens w)\<rparr>"]
  by (simp add: connection_open_def Let_def dispatch_registered_fun)

lemma bus_prefix_fold_listeners:
  "\<exists>rest. bus (fold (\<lambda>(ev, ctx). listener tok ev ctx) evs w) = bus w @ rest"
proof (induction evs arbitrary: w)
  case Nil
  show ?case by simp
next
  case (Cons e evs)
  obtain ev ctx where e: "e = (ev, ctx)" by (cases e)
  from Cons [of "listener tok ev ctx w"] obtain rest where
    "bus (fold (\<lambda>(ev, ctx). listener tok ev ctx) evs (listener tok ev ctx w)) =
       bus (listener tok ev ctx w) @ rest" by blast
  then show ?case
    by (simp add: e bus_listener)
qed

lemma bus_prefix_connection_open:
  "\<exists>rest. bus (snd (connection_open tr
      \<lparr>token = tok, listeners = [connectionOpen, connectionError, disconnected, connectionClose]\<rparr>
      w)) = bus w @ rest"
  using bus_prefix_fold_listeners [of tok "dispatched (tr (opens w))" "w\<lparr>opens := Suc (opens w)\<rparr>"]
  by (simp add: connection_open_def Let_def dispatch_registered_fun)

lemma opens_reopen_callback: "opens (reopen_callback tr c w) = Suc (opens w)"
proof -
  obtain out w2 where co: "connection_open tr c (dispatch c disconnected None w) = (out, w2)"
    by (cases "connection_open tr c (dispatch c disconnected None w)")
  have "opens w2 = Suc (opens w)"
    using co opens_connection_open [of tr c "dispatch c disconnected None w"]
    by (simp add: opens_dispatch)
  then show ?thesis
    by (simp add: reopen_callback_def Let_def co logger_def emit_def)
qed

lemma timers_reopen_callback:
  assumes quiet: "connectionClose \<notin> fst ` set (dispatched (tr (opens w)))"
  shows "timers (reopen_callback tr
      \<lparr>token = tok, listeners = [connectionOpen, connectionError, disconnected, connectionClose]\<rparr>
      w) = timers w"
proof -
  define c where "c = \<lparr>token = tok, listeners = [connectionOpen, connectionError, disconnected, connectionClose]\<rparr>"
  define w1 where "w1 = dispatch c disconnected None w"
  have w1: "timers w1 = timers w" "opens w1 = opens w"
    by (simp_all add: w1_def c_def dispatch_registered timers_listener opens_listener
        del: listener.simps)
  obtain out w2 where co: "connection_open tr c w1 = (out, w2)"
    by (cases "connection_open tr c w1")
  have "timers w2 = timers w1"
    using co timers_connection_open [of tr w1 tok] quiet by (simp add: c_def w1)
  then have "timers (reopen_callback tr c w) = timers w"
    by (simp add: reopen_callback_def Let_def w1_def [symmetric] co logger_def emit_def w1)
  then show ?thesis
    by (simp add: c_def)
qed

lemma bus_reopen_callback:
  "\<exists>more. bus (reopen_callback tr
      \<lparr>token = tok, listeners = [connectionOpen, connectionError, disconnected, connectionClose]\<rparr>
      w) = bus w @ AMQP_CONNECTION_DISCONNECTED # more"
proof -
  define c where "c = \<lparr>token = tok, listeners = [connectionOpen, connectionError, disconnected, connectionClose]\<rparr>"
  define w1 where "w1 = dispatch c disconnected None w"
  have w1: "bus w1 = bus w @ [AMQP_CONNECTION_DISCONNECTED]"
    by (simp add: w1_def c_def dispatch_registered bus_listener del: listener.simps)
  obtain out w2 where co: "connection_open tr c w1 = (out, w2)"
    by (cases "connection_open tr c w1")
  obtain rest where w2: "bus w2 = bus w1 @ rest"
    using co bus_prefix_connection_open [of tr tok w1] by (auto simp add: c_def)
  have "bus (reopen_callback tr c w) =
          bus w @ AMQP_CONNECTION_DISCONNECTED #
            (rest @ (if resolved out then [AMQP_CONNECTION_RECONNECT] else []))"
    by (simp add: reopen_callback_def Let_def w1_def [symmetric] co logger_def emit_def w1 w2)
  then show ?thesis
    unfolding c_def by blast
qed

section \<open>Timers that fire while the retry loop sleeps\<close>

text \<open>As long as every pending timer has more to wait than the time that passes, none fires.\<close>

lemma elapse_wait:
  "\<forall>t\<in>set (timers w). n < t \<Longrightarrow>
   elapse tr c n w = w\<lparr>timers := map (\<lambda>t. t - n) (timers w)\<rparr>"
proof (induction n arbitrary: w)
  case 0
  show ?case by simp
next
  case (Suc n)
  define v where "v = w\<lparr>timers := map (\<lambda>t. t - 1) (timers w)\<rparr>"
  from Suc.prems have none: "filter (\<lambda>t. t = 0) (timers v) = []"
    by (auto simp add: v_def filter_empty_conv)
  from Suc.prems have later: "\<forall>t\<in>set (timers v). n < t"
    by (auto simp add: v_def)
  have "fire_due tr c v = v"
    by (simp add: fire_due_def none)
  then have "elapse tr c (Suc n) w = elapse tr c n v"
    by (simp add: v_def)
  also have "\<dots> = v\<lparr>timers := map (\<lambda>t. t - n) (timers v)\<rparr>"
    using later by (rule Suc.IH)
  also have "\<dots> = w\<lparr>timers := map (\<lambda>t. t - Suc n) (timers w)\<rparr>"
    by (simp add: v_def)
  finally show ?case .
qed

lemma elapse_add: "elapse tr c (a + b) w = elapse tr c b (elapse tr c a w)"
  by (induction a arbitrary: w) simp_all

lemma elapse_one:
  "elapse tr c 1 w = fire_due tr c (w\<lparr>timers := map (\<lambda>t. t - 1) (timers w)\<rparr>)"
  by simp

lemma elapse_2500:
  "elapse tr c 2500 w =
     elapse tr c 500 (elapse tr c 1 (elapse tr c 999 (elapse tr c 1 (elapse tr c 999 w))))"
proof -
  have "elapse tr c (999 + (1 + (999 + (1 + 500)))) w =
     elapse tr c 500 (elapse tr c 1 (elapse tr c 999 (elapse tr c 1 (elapse tr c 999 w))))"
    by (simp only: elapse_add)
  then show ?thesis by simp
qed

text \<open>
  A callback that is pending with 1000 ms to go when the loop starts a sleep of 2500 ms
  runs during the sleep; against the broker above its \<open>open()\<close> is refused with another
  \<open>connectionClose\<close>, whose callback runs during the same sleep.
\<close>

lemma callbacks_run_while_loop_sleeps:
  assumes "timers w = [1000]"
  shows "opens (sleep noisy default_connection 2500 w) = opens w + 2 \<and>
         bus (sleep noisy default_connection 2500 w) =
           bus w @ [AMQP_CONNECTION_DISCONNECTED, AMQP_CONNECTION_DISCONNECTED] \<and>
         timers (sleep noisy default_connection 2500 w) = [500]"
  using assms
  by (simp add: sleep_def elapse_2500 elapse_wait elapse_one fire_due_def reopen_callback_def
     default_connection_def dispatch_def connection_open_def noisy_def Let_def logger_def
     emit_def setTimeout_def truthy_def
     del: elapse.simps One_nat_def)

lemma noisy_open:
  "fst (connection_open noisy default_connection w) = noisy 0 \<and>
   opens (snd (connection_open noisy default_connection w)) = Suc (opens w) \<and>
   timers (snd (connection_open noisy default_connection w)) = timers w @ [1000] \<and>
   bus (snd (connection_open noisy default_connection w)) = bus w"
  by (simp add: connection_open_def Let_def noisy_def default_connection_def dispatch_def
      logger_def setTimeout_def truthy_def)

text \<open>
  So \<open>createConnection\<close> with a limit of one retry returns after four calls of
  \<open>open()\<close>, two of them made by the close listener's callbacks, which have emitted
  \<open>AMQP_CONNECTION_DISCONNECTED\<close> twice, and leaves two more callbacks pending.
\<close>

lemma timers_fire_while_loop_sleeps:
  "fst (createConnection default_token noisy (Some noisy_options) idle_world) =
     Inr (Value default_connection) \<and>
   opens (snd (createConnection default_token noisy (Some noisy_options) idle_world)) = 4 \<and>
   bus (snd (createConnection default_token noisy (Some noisy_options) idle_world)) =
     [AMQP_CONNECTION_DISCONNECTED, AMQP_CONNECTION_DISCONNECTED] \<and>
   timers (snd (createConnection default_token noisy (Some noisy_options) idle_world)) =
     [500, 1000]"
proof -
  define c where "c = on connectionClose (on disconnected (on connectionError
                      (on connectionOpen (container_createConnection ''default''))))"
  have c: "c = default_connection"
    by (simp add: c_def on_def container_createConnection_def default_connection_def)
  define w0 where "w0 = logger Silly (''Connection creating: '' @ ''default'') idle_world"
  obtain out w1 where co: "connection_open noisy c w0 = (out, w1)"
    by (cases "connection_open noisy c w0")
  have out: "\<not> resolved out" "\<not> is_open out"
    and w1: "opens w1 = 1" "timers w1 = [1000]" "bus w1 = []"
    using co noisy_open [of w0]
    by (simp_all add: c w0_def logger_def idle_world_def noisy_def)
  define w2 where "w2 = logger Err (''Connection open failed: '' @ ''default'') w1"
  define v where "v = logger Silly ''reopening connection...'' w2"
  have v: "opens v = 1" "timers v = [1000]" "bus v = []"
    by (simp_all add: v_def w2_def logger_def w1)
  define v1 where "v1 = sleep noisy c (reconnect_delay noisy_options) v"
  have v1: "opens v1 = 3" "timers v1 = [500]"
    "bus v1 = [AMQP_CONNECTION_DISCONNECTED, AMQP_CONNECTION_DISCONNECTED]"
    using callbacks_run_while_loop_sleeps [of v]
    by (simp_all add: v1_def c v reconnect_delay_def noisy_options_def)
  obtain out2 v2 where co2: "connection_open noisy c v1 = (out2, v2)"
    by (cases "connection_open noisy c v1")
  have out2: "\<not> resolved out2" "\<not> is_open out2"
    and v2: "opens v2 = 4" "timers v2 = [500, 1000]"
    "bus v2 = [AMQP_CONNECTION_DISCONNECTED, AMQP_CONNECTION_DISCONNECTED]"
    using co2 noisy_open [of v1] by (simp_all add: c v1 noisy_def)
  define v3 where "v3 = logger Err (''Connection reopen failed: '' @ token c) v2"
  have v3: "opens v3 = 4" "timers v3 = [500, 1000]"
    "bus v3 = [AMQP_CONNECTION_DISCONNECTED, AMQP_CONNECTION_DISCONNECTED]"
    by (simp_all add: v3_def logger_def v2)
  have limit: "retry_limit noisy_options = 1"
    by (simp add: retry_limit_def noisy_options_def)
  have loop: "reopen_loop noisy c noisy_options 0 w2 = (False, v3)"
    using reopen_loop.simps [of noisy c noisy_options 0 w2]
    by (simp add: Let_def v_def [symmetric] v1_def [symmetric] co2 out2 v3_def limit
        del: append.simps)
  have "createConnection default_token noisy (Some noisy_options) idle_world =
      (Inr (Value c), v3)"
    by (simp add: createConnection_def Let_def default_token_def c_def [symmetric]
        w0_def [symmetric] co out w2_def [symmetric] loop del: append.simps)
  then show ?thesis
    by (simp add: c v3)
qed

section \<open>Counting the emissions\<close>

lemma count_list_replicate_same: "count_list (replicate n x) x = n"
  by (induction n) simp_all

lemma bus_fold_listeners_replicate:
  "bus (fold (\<lambda>(ev, ctx). listener tok ev ctx) evs w) =
     bus w @ replicate (count_list (map fst evs) disconnected) AMQP_CONNECTION_DISCONNECTED"
proof (induction evs arbitrary: w)
  case Nil
  show ?case by simp
next
  case (Cons e evs)
  obtain ev ctx where e: "e = (ev, ctx)" by (cases e)
  show ?case
    by (simp add: e Cons.IH bus_listener replicate_app_Cons_same del: listener.simps)
qed

lemma bus_connection_open_replicate:
  "bus (snd (connection_open tr
      \<lparr>token = tok, listeners = [connectionOpen, connectionError, disconnected, connectionClose]\<rparr>
      w)) =
     bus w @ replicate (count_list (map fst (dispatched (tr (opens w)))) disconnected)
       AMQP_CONNECTION_DISCONNECTED"
  using bus_fold_listeners_replicate [of tok "dispatched (tr (opens w))"
      "w\<lparr>opens := Suc (opens w)\<rparr>"]
  by (simp add: connection_open_def Let_def dispatch_registered_fun)

lemma count_reopen_callback:
  "count_list (bus (reopen_callback tr
      \<lparr>token = tok, listeners = [connectionOpen, connectionError, disconnected, connectionClose]\<rparr>
      w)) AMQP_CONNECTION_DISCONNECTED =
     count_list (bus w) AMQP_CONNECTION_DISCONNECTED + 1 +
       count_list (map fst (dispatched (tr (opens w)))) disconnected"
proof -
  define c where "c = \<lparr>token = tok, listeners = [connectionOpen, connectionError, disconnected, connectionClose]\<rparr>"
  define w1 where "w1 = dispatch c disconnected None w"
  have w1: "bus w1 = bus w @ [AMQP_CONNECTION_DISCONNECTED]" "opens w1 = opens w"
    by (simp_all add: w1_def c_def dispatch_registered bus_listener opens_listener
        del: listener.simps)
  obtain out w2 where co: "connection_open tr c w1 = (out, w2)"
    by (cases "connection_open tr c w1")
  have w2: "bus w2 = bus w1 @ replicate (count_list (map fst (dispatched (tr (opens w)))) disconnected)
       AMQP_CONNECTION_DISCONNECTED"
    using co bus_connection_open_replicate [of tr tok w1] by (simp add: c_def w1)
  have "count_list (bus (reopen_callback tr c w)) AMQP_CONNECTION_DISCONNECTED =
      count_list (bus w2) AMQP_CONNECTION_DISCONNECTED"
    by (simp add: reopen_callback_def Let_def w1_def [symmetric] co logger_def emit_def)
  then show ?thesis
    by (simp add: c_def w2 w1 count_list_replicate_same)
qed

lemma raised_during_same: "raised_during tr a a = 0"
  by (simp add: raised_during_def)

lemma raised_during_Suc:
  "raised_during tr a (Suc a) = count_list (map fst (dispatched (tr a))) disconnected"
  by (simp add: raised_during_def)

lemma raised_during_split:
  assumes "a \<le> b" and "b \<le> c"
  shows "raised_during tr a c = raised_during tr a b + raised_during tr b c"
proof -
  from assms obtain k where c: "c = b + k"
    using le_Suc_ex by blast
  from assms(1) have "[a..<b + k] = [a..<b] @ [b..<b + k]"
    by (rule upt_add_eq_append)
  then show ?thesis
    by (simp add: raised_during_def c)
qed

lemma react_count:
  fixes tok
  defines "c \<equiv> \<lparr>token = tok, listeners = [connectionOpen, connectionError, disconnected, connectionClose]\<rparr>"
  shows "opens w \<le> opens (react tr c s w) \<and>
         count_list (bus (react tr c s w)) AMQP_CONNECTION_DISCONNECTED =
           count_list (bus w) AMQP_CONNECTION_DISCONNECTED + disconnected_steps [s] +
           (opens (react tr c s w) - opens w) +
           raised_during tr (opens w) (opens (react tr c s w))"
proof (cases s)
  case (Dispatch ev ctx)
  then show ?thesis
    by (simp add: c_def dispatch_registered bus_listener opens_listener raised_during_same
        del: listener.simps)
next
  case TimerFires
  show ?thesis
  proof (cases "timers w")
    case Nil
    then show ?thesis
      by (simp add: TimerFires fire_timer_def raised_during_same)
  next
    case (Cons ms rest)
    have "react tr c s w = reopen_callback tr c (w\<lparr>timers := rest\<rparr>)"
      by (simp add: TimerFires fire_timer_def Cons)
    moreover have "opens (reopen_callback tr c (w\<lparr>timers := rest\<rparr>)) = Suc (opens w)"
      by (simp add: opens_reopen_callback)
    moreover have "count_list (bus (reopen_callback tr c (w\<lparr>timers := rest\<rparr>)))
        AMQP_CONNECTION_DISCONNECTED =
      count_list (bus w) AMQP_CONNECTION_DISCONNECTED + 1 +
        count_list (map fst (dispatched (tr (opens w)))) disconnected"
      using count_reopen_callback [of tr tok "w\<lparr>timers := rest\<rparr>"] by (simp add: c_def)
    ultimately show ?thesis
      by (simp add: TimerFires raised_during_Suc)
  qed
qed

lemma run_Cons: "run tr c (s # steps) w = run tr c steps (react tr c s w)"
  by (simp add: run_def)

lemma run_append: "run tr c (xs @ ys) w = run tr c ys (run tr c xs w)"
  by (simp add: run_def)

lemma disconnected_steps_Cons:
  "disconnected_steps (s # steps) = disconnected_steps [s] + disconnected_steps steps"
  by (cases s) simp_all

lemma run_count:
  fixes tok
  defines "c \<equiv> \<lparr>token = tok, listeners = [connectionOpen, connectionError, disconnected, connectionClose]\<rparr>"
  shows "opens w \<le> opens (run tr c steps w) \<and>
         count_list (bus (run tr c steps w)) AMQP_CONNECTION_DISCONNECTED =
           count_list (bus w) AMQP_CONNECTION_DISCONNECTED + disconnected_steps steps +
           (opens (run tr c steps w) - opens w) +
           raised_during tr (opens w) (opens (run tr c steps w))"
proof (induction steps arbitrary: w)
  case Nil
  show ?case by (simp add: run_def raised_during_same)
next
  case (Cons s steps)
  define v where "v = react tr c s w"
  have step: "opens w \<le> opens v"
    "count_list (bus v) AMQP_CONNECTION_DISCONNECTED =
       count_list (bus w) AMQP_CONNECTION_DISCONNECTED + disconnected_steps [s] +
       (opens v - opens w) + raised_during tr (opens w) (opens v)"
    using react_count [of w tr tok s] by (simp_all add: v_def c_def)
  have rest: "opens v \<le> opens (run tr c steps v)"
    "count_list (bus (run tr c steps v)) AMQP_CONNECTION_DISCONNECTED =
       count_list (bus v) AMQP_CONNECTION_DISCONNECTED + disconnected_steps steps +
       (opens (run tr c steps v) - opens v) +
       raised_during tr (opens v) (opens (run tr c steps v))"
    using Cons.IH [of v] by simp_all
  have split: "raised_during tr (opens w) (opens (run tr c steps v)) =
      raised_during tr (opens w) (opens v) + raised_during tr (opens v) (opens (run tr c steps v))"
    using step(1) rest(1) by (rule raised_during_split)
  have "run tr c (s # steps) w = run tr c steps v"
    by (simp add: run_Cons v_def)
  with step rest split disconnected_steps_Cons [of s steps] show ?case
    by simp
qed

section \<open>The bus only grows\<close>

lemma fold_extends_bus:
  assumes "\<And>x v. \<exists>more. bus (f x v) = bus v @ more"
  shows "\<exists>more. bus (fold f xs w) = bus w @ more"
proof (induction xs arbitrary: w)
  case Nil
  show ?case by simp
next
  case (Cons x xs)
  from assms obtain m1 where "bus (f x w) = bus w @ m1" by blast
  moreover from Cons [of "f x w"] obtain m2 where
    "bus (fold f xs (f x w)) = bus (f x w) @ m2" by blast
  ultimately show ?case by simp
qed

lemma dispatch_extends_bus: "\<exists>more. bus (dispatch c ev ctx w) = bus w @ more"
  unfolding dispatch_def
  by (rule fold_extends_bus) (simp add: bus_listener del: listener.simps)

lemma connection_open_extends_bus: "\<exists>more. bus (snd (connection_open tr c w)) = bus w @ more"
proof -
  have "\<exists>more. bus (fold (\<lambda>(ev, ctx). dispatch c ev ctx) (dispatched (tr (opens w)))
      (w\<lparr>opens := Suc (opens w)\<rparr>)) = bus (w\<lparr>opens := Suc (opens w)\<rparr>) @ more"
    by (rule fold_extends_bus) (simp add: case_prod_beta dispatch_extends_bus)
  then show ?thesis
    by (simp add: connection_open_def Let_def)
qed

lemma reopen_callback_extends_bus: "\<exists>more. bus (reopen_callback tr c w) = bus w @ more"
proof -
  define w1 where "w1 = dispatch c disconnected None w"
  obtain m1 where m1: "bus w1 = bus w @ m1"
    using dispatch_extends_bus [of c disconnected None w] by (auto simp add: w1_def)
  obtain out w2 where co: "connection_open tr c w1 = (out, w2)"
    by (cases "connection_open tr c w1")
  obtain m2 where m2: "bus w2 = bus w1 @ m2"
    using co connection_open_extends_bus [of tr c w1] by auto
  have "bus (reopen_callback tr c w) =
      bus w2 @ (if resolved out then [AMQP_CONNECTION_RECONNECT] else [])"
    by (simp add: reopen_callback_def Let_def w1_def [symmetric] co logger_def emit_def)
  then show ?thesis
    by (simp add: m1 m2)
qed

lemma fire_due_extends_bus: "\<exists>more. bus (fire_due tr c w) = bus w @ more"
  unfolding fire_due_def
proof (rule fold_extends_bus)
  fix t :: nat and v
  show "\<exists>more. bus (reopen_callback tr c (v\<lparr>timers := remove1 0 (timers v)\<rparr>)) = bus v @ more"
    using reopen_callback_extends_bus [of tr c "v\<lparr>timers := remove1 0 (timers v)\<rparr>"] by simp
qed

lemma elapse_extends_bus: "\<exists>more. bus (elapse tr c n w) = bus w @ more"
proof (induction n arbitrary: w)
  case 0
  show ?case by simp
next
  case (Suc n)
  define v where "v = fire_due tr c (w\<lparr>timers := map (\<lambda>t. t - 1) (timers w)\<rparr>)"
  obtain m1 where "bus v = bus w @ m1"
    using fire_due_extends_bus [of tr c "w\<lparr>timers := map (\<lambda>t. t - 1) (timers w)\<rparr>"]
    by (auto simp add: v_def)
  moreover obtain m2 where "bus (elapse tr c n v) = bus v @ m2"
    using Suc [of v] by blast
  ultimately show ?case
    by (simp add: v_def)
qed

lemma sleep_extends_bus: "\<exists>more. bus (sleep tr c ms w) = bus w @ more"
  using elapse_extends_bus [of tr c _ "w\<lparr>sleeps := sleeps w @ [ms]\<rparr>"]
  by (simp add: sleep_def)

lemma reopen_loop_extends_bus:
  "\<exists>more. bus (snd (reopen_loop tr c options retry w)) = bus w @ more"
proof (induction tr c options retry w rule: reopen_loop.induct)
  case (1 tr c options retry w)
  define w1 where "w1 = sleep tr c (reconnect_delay options)
                          (logger Silly ''reopening connection...'' w)"
  obtain m1 where m1: "bus w1 = bus w @ m1"
    using sleep_extends_bus [of tr c "reconnect_delay options"
        "logger Silly ''reopening connection...'' w"]
    by (auto simp add: w1_def logger_def)
  obtain out w2 where co: "connection_open tr c w1 = (out, w2)"
    by (cases "connection_open tr c w1")
  obtain m2 where m2: "bus w2 = bus w1 @ m2"
    using co connection_open_extends_bus [of tr c w1] by auto
  define w3 where "w3 = (if resolved out then w2
                         else logger Err (''Connection reopen failed: '' @ token c) w2)"
  have w3: "bus w3 = bus w2"
    by (simp add: w3_def logger_def)
  show ?case
  proof (cases "resolved out \<and> is_open out")
    case True
    have "reopen_loop tr c options retry w = (True, snd (emit AMQP_CONNECTION_RECONNECT w2))"
      using reopen_loop.simps [of tr c options retry w] True
      by (simp add: Let_def w1_def [symmetric] co)
    then show ?thesis
      by (simp add: emit_def m1 m2)
  next
    case False
    show ?thesis
    proof (cases "retry + 1 < retry_limit options \<and> \<not> is_open out")
      case again: True
      have "reopen_loop tr c options retry w = reopen_loop tr c options (retry + 1) w3"
        using reopen_loop.simps [of tr c options retry w] False again
        by (simp add: Let_def w1_def [symmetric] co w3_def)
      moreover obtain m3 where
        "bus (snd (reopen_loop tr c options (retry + 1) w3)) = bus w3 @ m3"
        using "1.IH" [OF w1_def refl co [symmetric] False w3_def again] by blast
      ultimately show ?thesis
        by (simp add: w3 m1 m2)
    next
      case stop: False
      have "reopen_loop tr c options retry w = (False, w3)"
        using reopen_loop.simps [of tr c options retry w] False stop
        by (simp add: Let_def w1_def [symmetric] co w3_def)
      then show ?thesis
        by (simp add: w3 m1 m2)
    qed
  qed
qed

section \<open>The order of the emissions\<close>

lemma reconnect_announced_meaning:
  "reconnect_announced b \<longleftrightarrow>
     (\<forall>i<length b. b ! i = AMQP_CONNECTION_RECONNECT \<longrightarrow>
        (\<exists>j<i. b ! j = AMQP_CONNECTION_DISCONNECTED))"
proof (cases b)
  case Nil
  then show ?thesis by simp
next
  case (Cons e es)
  show ?thesis
  proof (cases e)
    case AMQP_CONNECTION_DISCONNECTED
    have "\<exists>j<i. (e # es) ! j = AMQP_CONNECTION_DISCONNECTED"
      if "(e # es) ! i = AMQP_CONNECTION_RECONNECT" for i
    proof -
      from that AMQP_CONNECTION_DISCONNECTED have "i \<noteq> 0"
        by (cases i) simp_all
      then have "0 < i" by simp
      moreover have "(e # es) ! 0 = AMQP_CONNECTION_DISCONNECTED"
        by (simp add: AMQP_CONNECTION_DISCONNECTED)
      ultimately show ?thesis by blast
    qed
    then show ?thesis
      by (simp add: Cons AMQP_CONNECTION_DISCONNECTED)
  next
    case AMQP_CONNECTION_RECONNECT
    then have "\<not> (\<forall>i<length b. b ! i = AMQP_CONNECTION_RECONNECT \<longrightarrow>
        (\<exists>j<i. b ! j = AMQP_CONNECTION_DISCONNECTED))"
      by (auto simp add: Cons intro!: exI [of _ 0])
    then show ?thesis
      by (simp add: Cons AMQP_CONNECTION_RECONNECT)
  qed
qed

lemma announced_append:
  "reconnect_announced b \<Longrightarrow> b \<noteq> [] \<Longrightarrow> reconnect_announced (b @ es)"
  by (cases b rule: reconnect_announced.cases) simp_all

lemma announced_append_disconnected:
  "reconnect_announced b \<Longrightarrow> reconnect_announced (b @ AMQP_CONNECTION_DISCONNECTED # es)"
  by (cases b rule: reconnect_announced.cases) simp_all

lemma announced_append_replicate:
  "reconnect_announced b \<Longrightarrow> reconnect_announced (b @ replicate k AMQP_CONNECTION_DISCONNECTED)"
  by (cases k) (simp_all add: announced_append_disconnected)

lemma react_announced:
  fixes tok
  defines "c \<equiv> \<lparr>token = tok, listeners = [connectionOpen, connectionError, disconnected, connectionClose]\<rparr>"
  assumes "reconnect_announced (bus w)"
  shows "reconnect_announced (bus (react tr c s w))"
proof (cases s)
  case (Dispatch ev ctx)
  have "bus (react tr c s w) =
      bus w @ replicate (if ev = disconnected then 1 else 0) AMQP_CONNECTION_DISCONNECTED"
    by (simp add: Dispatch c_def dispatch_registered bus_listener del: listener.simps)
  with assms(2) show ?thesis
    by (simp only: announced_append_replicate)
next
  case TimerFires
  show ?thesis
  proof (cases "timers w")
    case Nil
    with assms(2) show ?thesis
      by (simp add: TimerFires fire_timer_def)
  next
    case (Cons ms rest)
    obtain es where "bus (reopen_callback tr c (w\<lparr>timers := rest\<rparr>)) =
        bus w @ AMQP_CONNECTION_DISCONNECTED # es"
      using bus_reopen_callback [of tr tok "w\<lparr>timers := rest\<rparr>"] by (auto simp add: c_def)
    with assms(2) show ?thesis
      by (simp add: TimerFires fire_timer_def Cons announced_append_disconnected)
  qed
qed

lemma run_announced:
  fixes tok
  defines "c \<equiv> \<lparr>token = tok, listeners = [connectionOpen, connectionError, disconnected, connectionClose]\<rparr>"
  assumes "reconnect_announced (bus w)"
  shows "reconnect_announced (bus (run tr c steps w))"
  using assms(2)
proof (induction steps arbitrary: w)
  case Nil
  then show ?case by (simp add: run_def)
next
  case (Cons s steps)
  from Cons.prems have "reconnect_announced (bus (react tr c s w))"
    unfolding c_def by (rule react_announced)
  then show ?case
    by (simp add: run_Cons Cons.IH)
qed

lemma createConnection_announced:
  assumes loud: "\<And>n. resolved (tr n) \<or> disconnected \<in> fst ` set (dispatched (tr n))"
    and init: "reconnect_announced (bus w)"
  shows "reconnect_announced (bus (snd (createConnection getConnectionToken tr (Some options) w)))"
proof -
  define tok where "tok = getConnectionToken (Some (Inl options))"
  define c where "c = on connectionClose (on disconnected (on connectionError
                      (on connectionOpen (container_createConnection tok))))"
  have c: "c = \<lparr>token = tok, listeners = [connectionOpen, connectionError, disconnected,
                                    connectionClose]\<rparr>"
    by (simp add: c_def on_def container_createConnection_def)
  define w0 where "w0 = logger Silly (''Connection creating: '' @ tok) w"
  obtain out w1 where co: "connection_open tr c w0 = (out, w1)"
    by (cases "connection_open tr c w0")
  have out: "out = tr (opens w0)"
    using co fst_connection_open [of tr c w0] by simp
  define k where "k = count_list (map fst (dispatched (tr (opens w0)))) disconnected"
  have bw1: "bus w1 = bus w @ replicate k AMQP_CONNECTION_DISCONNECTED"
    using co bus_connection_open_replicate [of tr tok w0]
    by (simp add: c k_def w0_def logger_def)
  show ?thesis
  proof (cases "resolved out")
    case True
    have "createConnection getConnectionToken tr (Some options) w = (Inr (Value c), w1)"
      by (simp add: createConnection_def Let_def tok_def [symmetric] c_def [symmetric]
          w0_def [symmetric] co True del: append.simps)
    with init show ?thesis
      by (simp add: bw1 announced_append_replicate)
  next
    case False
    with loud [of "opens w0"] out have "disconnected \<in> set (map fst (dispatched (tr (opens w0))))"
      by simp
    then have "k \<noteq> 0"
      by (simp only: k_def count_list_0_iff) simp
    then obtain k' where k': "k = Suc k'"
      by (cases k) simp_all
    have bw1': "bus w1 = bus w @ AMQP_CONNECTION_DISCONNECTED #
        replicate k' AMQP_CONNECTION_DISCONNECTED"
      by (simp add: bw1 k')
    have ann1: "reconnect_announced (bus w1)" and ne1: "bus w1 \<noteq> []"
      using init by (simp_all add: bw1' announced_append_disconnected)
    define w2 where "w2 = logger Err (''Connection open failed: '' @ tok) w1"
    have bw2: "bus w2 = bus w1"
      by (simp add: w2_def logger_def)
    obtain returned w3 where loop: "reopen_loop tr c options 0 w2 = (returned, w3)"
      by (cases "reopen_loop tr c options 0 w2")
    obtain es where "bus w3 = bus w2 @ es"
      using reopen_loop_extends_bus [of tr c options 0 w2] loop by auto
    with ann1 ne1 have "reconnect_announced (bus w3)"
      by (simp add: bw2 announced_append)
    moreover have "createConnection getConnectionToken tr (Some options) w =
        (if returned then (Inr Undefined, w3) else (Inr (Value c), w3))"
      by (simp add: createConnection_def Let_def tok_def [symmetric] c_def [symmetric]
          w0_def [symmetric] co False w2_def [symmetric] loop del: append.simps)
    ultimately show ?thesis
      by simp
  qed
qed

lemma run_dispatches:
  fixes tok
  defines "c \<equiv> \<lparr>token = tok, listeners = [connectionOpen, connectionError, disconnected, connectionClose]\<rparr>"
  shows "bus (run tr c (dispatches evs) w) =
           bus w @ replicate (count_list (map fst evs) disconnected) AMQP_CONNECTION_DISCONNECTED \<and>
         timers (run tr c (dispatches evs) w) =
           timers w @ replicate (count_list (map fst evs) connectionClose) 1000 \<and>
         opens (run tr c (dispatches evs) w) = opens w"
proof (induction evs arbitrary: w)
  case Nil
  show ?case by (simp add: run_def dispatches_def)
next
  case (Cons e evs)
  obtain ev ctx where e: "e = (ev, ctx)" by (cases e)
  have "run tr c (dispatches (e # evs)) w = run tr c (dispatches evs) (listener tok ev ctx w)"
    by (simp add: dispatches_def run_def e c_def dispatch_registered del: listener.simps)
  with Cons.IH [of "listener tok ev ctx w"] show ?case
    by (simp add: e bus_listener timers_listener opens_listener replicate_app_Cons_same
        del: listener.simps)
qed

lemma bus_reopen_callback_resolved:
  assumes ok: "resolved (tr (opens w))"
    and quiet: "disconnected \<notin> fst ` set (dispatched (tr (opens w)))"
  shows "bus (reopen_callback tr
      \<lparr>token = tok, listeners = [connectionOpen, connectionError, disconnected, connectionClose]\<rparr>
      w) = bus w @ [AMQP_CONNECTION_DISCONNECTED, AMQP_CONNECTION_RECONNECT]"
proof -
  define c where "c = \<lparr>token = tok, listeners = [connectionOpen, connectionError, disconnected, connectionClose]\<rparr>"
  define w1 where "w1 = dispatch c disconnected None w"
  have w1: "bus w1 = bus w @ [AMQP_CONNECTION_DISCONNECTED]" "opens w1 = opens w"
    by (simp_all add: w1_def c_def dispatch_registered bus_listener opens_listener
        del: listener.simps)
  obtain out w2 where co: "connection_open tr c w1 = (out, w2)"
    by (cases "connection_open tr c w1")
  have out: "out = tr (opens w)"
    using co fst_connection_open [of tr c w1] by (simp add: w1)
  have w2: "bus w2 = bus w1"
    using co bus_connection_open [of tr w1 tok] quiet by (simp add: c_def w1)
  have "bus (reopen_callback tr c w) = bus w2 @ [AMQP_CONNECTION_RECONNECT]"
    using ok out
    by (simp add: reopen_callback_def Let_def w1_def [symmetric] co logger_def emit_def)
  then show ?thesis
    by (simp add: c_def w2 w1)
qed

section \<open>Facts about receivers\<close>

lemma createReceiver_value:
  assumes "fst (createReceiver moduleRef attach options w) = Inr r"
  shows "\<exists>c attached. moduleRef (connectionToken options) = Some (Value c) \<and>
           attach c (receiverOptions options) = Inr attached \<and>
           r = \<lparr>receiver_name = receiver_name attached,
                credit = credit attached + max 0 (credits options),
                receiver_listeners = receiver_listeners attached @
                  [receiverOpen, receiverClose, receiverDrained, receiverFlow, settled]\<rparr>"
  using assms
  by (auto simp add: createReceiver_def moduleRef_get_def Let_def addCredit_def receiver_on_def
      max_def split: option.splits retval.splits sum.splits if_splits)

lemma credit_receiver_listener:
  "credit (fst (receiver_listener p ev rw)) =
     (if ev = receiverOpen \<and> credit (fst rw) < p then p else credit (fst rw))"
  by (cases ev; cases rw) (simp_all add: Let_def addCredit_def)

lemma credit_fold_receiver_listener:
  "credit (fst (fold (\<lambda>l. if l = ev then receiver_listener p l else id) ls rw)) =
     (if ev = receiverOpen \<and> ev \<in> set ls \<and> credit (fst rw) < p then p else credit (fst rw))"
proof (induction ls arbitrary: rw)
  case Nil
  show ?case by simp
next
  case (Cons l ls)
  show ?case
  proof (cases "l = ev")
    case True
    have "credit (fst (fold (\<lambda>l. if l = ev then receiver_listener p l else id) (l # ls) rw)) =
        credit (fst (fold (\<lambda>l. if l = ev then receiver_listener p l else id) ls
          (receiver_listener p ev rw)))"
      by (simp add: True)
    also have "\<dots> = (if ev = receiverOpen \<and> ev \<in> set ls \<and>
        credit (fst (receiver_listener p ev rw)) < p then p
        else credit (fst (receiver_listener p ev rw)))"
      by (rule Cons.IH)
    also have "\<dots> = (if ev = receiverOpen \<and> credit (fst rw) < p then p else credit (fst rw))"
      by (simp add: credit_receiver_listener)
    finally show ?thesis
      by (simp add: True)
  next
    case False
    then show ?thesis
      using Cons.IH [of rw] by auto
  qed
qed

text \<open>
  Deliveries and dispositions leave the sum of credit and messages in flight as it is; an
  open confirmation raises it by the prefetch at most.
\<close>

lemma link_step_bounds:
  assumes "0 \<le> credit (link_receiver s)"
    and "credit (link_receiver s) + int (in_flight s) \<le> b"
  shows "0 \<le> credit (link_receiver (link_step p s e)) \<and>
         credit (link_receiver (link_step p s e)) + int (in_flight (link_step p s e)) \<le>
           b + (if e = OpenConfirmation then max 0 p else 0)"
proof (cases e)
  case Delivery
  with assms show ?thesis by simp
next
  case Disposition
  with assms show ?thesis by (simp add: addCredit_def)
next
  case OpenConfirmation
  define r where "r = fst (receiver_dispatch p receiverOpen (link_receiver s, link_world s))"
  have r: "credit r = (if receiverOpen \<in> set (receiver_listeners (link_receiver s)) \<and>
      credit (link_receiver s) < p then p else credit (link_receiver s))"
    by (simp add: r_def receiver_dispatch_def credit_fold_receiver_listener)
  have step: "link_receiver (link_step p s e) = r" "in_flight (link_step p s e) = in_flight s"
    by (simp_all add: OpenConfirmation r_def case_prod_beta)
  from assms r have "0 \<le> credit r \<and> credit r + int (in_flight s) \<le> b + max 0 p"
    by auto
  then show ?thesis
    unfolding step by (simp add: OpenConfirmation)
qed

lemma link_run_Cons: "link_run p s (e # evs) = link_run p (link_step p s e) evs"
  by (simp add: link_run_def)

lemma link_run_bounds:
  assumes "0 \<le> credit (link_receiver s)"
    and "credit (link_receiver s) + int (in_flight s) \<le> b"
  shows "0 \<le> credit (link_receiver (link_run p s evs)) \<and>
         credit (link_receiver (link_run p s evs)) + int (in_flight (link_run p s evs)) \<le>
           b + int (count_list evs OpenConfirmation) * max 0 p"
  using assms
proof (induction evs arbitrary: s b)
  case Nil
  then show ?case by (simp add: link_run_def)
next
  case (Cons e evs)
  from link_step_bounds [OF Cons.prems, of p e]
  have step: "0 \<le> credit (link_receiver (link_step p s e))"
    "credit (link_receiver (link_step p s e)) + int (in_flight (link_step p s e)) \<le>
       b + (if e = OpenConfirmation then max 0 p else 0)"
    by simp_all
  from Cons.IH [OF step]
  have rest: "0 \<le> credit (link_receiver (link_run p (link_step p s e) evs)) \<and>
      credit (link_receiver (link_run p (link_step p s e) evs)) +
        int (in_flight (link_run p (link_step p s e) evs)) \<le>
      b + (if e = OpenConfirmation then max 0 p else 0) +
        int (count_list evs OpenConfirmation) * max 0 p" .
  have "b + (if e = OpenConfirmation then max 0 p else 0) +
        int (count_list evs OpenConfirmation) * max 0 p =
      b + int (count_list (e # evs) OpenConfirmation) * max 0 p"
    by (simp add: algebra_simps)
  with rest show ?case
    by (simp only: link_run_Cons)
qed

section \<open>Claims about \<open>createConnection\<close>\<close>

text \<open>
  C9: \<open>createConnection\<close> checks that its options are there. Without options it throws
  the error whose message names the connection token; with options, whatever they and the
  transport are, it throws nothing and resolves.
\<close>

theorem createConnection_checks_options:
  "fst (createConnection getConnectionToken tr None w) =
     Inl (Error (''Invalid connection options: '' @ getConnectionToken None)) \<and>
   (\<exists>v. fst (createConnection getConnectionToken tr (Some options) w) = Inr v)"
  by (simp add: createConnection_def Let_def split: prod.splits)

text \<open>
  C1: a call with options should resolve with the connection it created, also when the
  first \<open>open()\<close> fails and a retry succeeds. On that path the code leaves through the
  bare \<open>return;\<close> of line 92: against a broker that refuses the first attempt and
  accepts the second, the call resolves with \<open>undefined\<close>.
\<close>

theorem createConnection_late_open_undefined:
  "fst (createConnection default_token late_broker (Some plain_options) idle_world) =
     Inr Undefined"
  by (simp add: createConnection_def Let_def connection_open_def reopen_loop.simps
      late_broker_def rejected_def opened_def idle_world_def plain_options_def
      default_token_def dispatch_def on_def container_createConnection_def
      logger_def sleep_idle emit_def reconnect_delay_def retry_limit_def)

text \<open>
  C2, as stated, fails for a limit of zero: the loop is a \<open>do ... while\<close>, whose body
  runs before the limit is read, so one reopen attempt follows the first failed open.
\<close>

theorem createConnection_limit_zero_counterexample:
  "retry_limit (limited_options 0) = 0 \<and>
   opens (snd (createConnection default_token unreachable (Some (limited_options 0))
     idle_world)) = 2"
  by (simp add: createConnection_def Let_def connection_open_def reopen_loop.simps
      unreachable_def rejected_def idle_world_def limited_options_def
      default_token_def dispatch_def on_def container_createConnection_def
      logger_def sleep_idle emit_def reconnect_delay_def retry_limit_def)

text \<open>
  C2, amended: when every \<open>open()\<close> is rejected and leaves the connection closed, the
  transport raises no \<open>connectionClose\<close> meanwhile and no reopen timer is pending at the
  call, \<open>createConnection\<close> makes, after the first failed open, exactly \<open>max 1 L\<close> reopen
  attempts for the limit \<open>L\<close> (3 when none is configured), then returns normally with the
  connection it created, and no timer is pending. (Where the transport does raise
  \<open>connectionClose\<close>, the close listener's callbacks open the connection as well while
  the loop sleeps, as shown above.)
\<close>

theorem createConnection_exhausts_retries:
  assumes fail: "\<And>n. \<not> resolved (tr n) \<and> \<not> is_open (tr n)"
    and quiet: "\<And>n. connectionClose \<notin> fst ` set (dispatched (tr n))"
    and idle: "timers w = []"
  shows "fst (createConnection getConnectionToken tr (Some options) w) =
           Inr (Value \<lparr>token = getConnectionToken (Some (Inl options)),
                       listeners = [connectionOpen, connectionError, disconnected,
                                    connectionClose]\<rparr>) \<and>
         opens (snd (createConnection getConnectionToken tr (Some options) w)) =
           opens w + 1 + nat (max 1 (retry_limit options)) \<and>
         timers (snd (createConnection getConnectionToken tr (Some options) w)) = []"
proof -
  define tok where "tok = getConnectionToken (Some (Inl options))"
  define c where "c = on connectionClose (on disconnected (on connectionError
                      (on connectionOpen (container_createConnection tok))))"
  define w0 where "w0 = logger Silly (''Connection creating: '' @ tok) w"
  obtain out w1 where co: "connection_open tr c w0 = (out, w1)"
    by (cases "connection_open tr c w0")
  have "out = tr (opens w0)"
    using co fst_connection_open [of tr c w0] by simp
  then have nres: "\<not> resolved out"
    using fail by simp
  have ow1: "opens w1 = Suc (opens w)"
    using co opens_connection_open [of tr c w0] by (simp add: w0_def logger_def)
  have tw1: "timers w1 = []"
    using co timers_connection_open_quiet [of tr w0 c] quiet idle
    by (simp add: w0_def logger_def)
  define w2 where "w2 = logger Err (''Connection open failed: '' @ tok) w1"
  have ow2: "opens w2 = Suc (opens w)" and tw2: "timers w2 = []"
    by (simp_all add: w2_def logger_def ow1 tw1)
  obtain returned w3 where loop: "reopen_loop tr c options 0 w2 = (returned, w3)"
    by (cases "reopen_loop tr c options 0 w2")
  have "\<not> returned" and "opens w3 = opens w2 + nat (max 1 (retry_limit options))"
    and "timers w3 = []"
    using reopen_loop_failing [of tr w2 c options 0] fail quiet tw2 loop by simp_all
  moreover have "createConnection getConnectionToken tr (Some options) w =
      (if returned then (Inr Undefined, w3) else (Inr (Value c), w3))"
    by (simp add: createConnection_def Let_def tok_def [symmetric] c_def [symmetric]
        w0_def [symmetric] co nres w2_def [symmetric] loop del: append.simps)
  moreover have "c = \<lparr>token = tok, listeners = [connectionOpen, connectionError, disconnected,
                                    connectionClose]\<rparr>"
    by (simp add: c_def on_def container_createConnection_def)
  ultimately show ?thesis
    using ow2 by (simp add: tok_def)
qed

theorem createConnection_exhausts_retries_witness:
  "(\<forall>n. \<not> resolved (unreachable n) \<and> \<not> is_open (unreachable n)) \<and>
   (\<forall>n. connectionClose \<notin> fst ` set (dispatched (unreachable n))) \<and>
   timers idle_world = [] \<and>
   fst (createConnection default_token unreachable (Some (limited_options 2)) idle_world) =
     Inr (Value default_connection) \<and>
   opens (snd (createConnection default_token unreachable (Some (limited_options 2))
     idle_world)) = 3 \<and>
   timers (snd (createConnection default_token unreachable (Some (limited_options 2))
     idle_world)) = []"
  using createConnection_exhausts_retries [of unreachable idle_world default_token
      "limited_options 2"]
  by (simp add: unreachable_def rejected_def default_token_def default_connection_def
      idle_world_def limited_options_def retry_limit_def)

section \<open>Claims about the connection's listeners\<close>

text \<open>
  C3, as stated, fails when the transport reports one disconnect by the peer with both
  \<open>connectionClose\<close> and \<open>disconnected\<close>: the listener of \<open>disconnected\<close> emits once, and
  the callback of the close listener dispatches a synthesized \<open>disconnected\<close> 1000 ms
  later, which emits again.
\<close>

theorem peer_close_emits_twice_counterexample:
  "fst (createConnection default_token steady_broker (Some plain_options) idle_world) =
     Inr (Value default_connection) \<and>
   count_list (bus (run steady_broker default_connection
       [Dispatch connectionClose None, Dispatch disconnected None, TimerFires]
       (snd (createConnection default_token steady_broker (Some plain_options) idle_world))))
     AMQP_CONNECTION_DISCONNECTED = 2"
  by (simp add: createConnection_def Let_def connection_open_def run_def fire_timer_def
      reopen_callback_def truthy_def setTimeout_def
      steady_broker_def opened_def idle_world_def plain_options_def
      default_token_def default_connection_def dispatch_def on_def
      container_createConnection_def logger_def emit_def)

text \<open>
  C3, amended: on a connection made by \<open>createConnection\<close>, every dispatch of
  \<open>disconnected\<close> puts exactly one \<open>AMQP_CONNECTION_DISCONNECTED\<close> on the bus, and
  nothing else puts one there. Over any run of the event loop the emissions are as many as
  the \<open>disconnected\<close> events the transport dispatched, as steps of their own or while a
  reopen was pending, plus one for each callback of the close listener that ran (each makes
  one call of \<open>open()\<close>), for its synthesized dispatch. So a disconnect that the transport
  reports by \<open>disconnected\<close> alone is emitted once, and one that it also reports by
  \<open>connectionClose\<close> once more.
\<close>

theorem disconnected_once_per_dispatch:
  assumes "fst (createConnection getConnectionToken trc (Some options) wc) = Inr (Value c)"
  shows "bus (dispatch c disconnected ctx w) = bus w @ [AMQP_CONNECTION_DISCONNECTED] \<and>
         count_list (bus (run tr c steps v)) AMQP_CONNECTION_DISCONNECTED =
           count_list (bus v) AMQP_CONNECTION_DISCONNECTED + disconnected_steps steps +
           (opens (run tr c steps v) - opens v) +
           raised_during tr (opens v) (opens (run tr c steps v))"
proof -
  have c: "c = \<lparr>token = getConnectionToken (Some (Inl options)),
        listeners = [connectionOpen, connectionError, disconnected, connectionClose]\<rparr>"
    using createConnection_value [OF assms] by simp
  have "bus (dispatch c disconnected ctx w) = bus w @ [AMQP_CONNECTION_DISCONNECTED]"
    by (simp add: c dispatch_registered bus_listener del: listener.simps)
  then show ?thesis
    using run_count [of v tr "getConnectionToken (Some (Inl options))" steps] by (simp add: c)
qed

theorem disconnected_once_per_dispatch_witness:
  "fst (createConnection default_token steady_broker (Some plain_options) idle_world) =
     Inr (Value default_connection) \<and>
   bus (dispatch default_connection disconnected (Some ''reset'') idle_world) =
     [AMQP_CONNECTION_DISCONNECTED] \<and>
   count_list (bus (run steady_broker default_connection
       [Dispatch disconnected (Some ''reset'')] idle_world)) AMQP_CONNECTION_DISCONNECTED = 1"
  using disconnected_once_per_dispatch [where getConnectionToken = default_token
      and trc = steady_broker and options = plain_options and wc = idle_world
      and c = default_connection and ctx = "Some ''reset''" and w = idle_world
      and tr = steady_broker and steps = "[Dispatch disconnected (Some ''reset'')]"
      and v = idle_world]
  by (simp add: createConnection_def Let_def connection_open_def run_def
      steady_broker_def opened_def idle_world_def plain_options_def
      default_token_def default_connection_def dispatch_def on_def
      container_createConnection_def logger_def emit_def raised_during_def)

text \<open>
  C10: every \<open>connectionClose\<close> event on a connection made by \<open>createConnection\<close>,
  with or without an error in its context, adds one timer of 1000 ms and does nothing else
  at that moment. When the timer fires its callback runs: first the synthesized
  \<open>disconnected\<close> dispatch, which puts \<open>AMQP_CONNECTION_DISCONNECTED\<close> on the bus, then
  exactly one \<open>open()\<close>.
\<close>

theorem close_listener_schedules_reopen:
  assumes created: "fst (createConnection getConnectionToken trc (Some options) wc) = Inr (Value c)"
  shows "timers (dispatch c connectionClose ctx w) = timers w @ [1000] \<and>
         bus (dispatch c connectionClose ctx w) = bus w \<and>
         opens (dispatch c connectionClose ctx w) = opens w \<and>
         fire_timer tr c (v\<lparr>timers := 1000 # rest\<rparr>) =
           reopen_callback tr c (v\<lparr>timers := rest\<rparr>) \<and>
         (\<exists>more. bus (reopen_callback tr c v) =
                   bus v @ AMQP_CONNECTION_DISCONNECTED # more) \<and>
         opens (reopen_callback tr c v) = Suc (opens v)"
proof -
  define tok where "tok = getConnectionToken (Some (Inl options))"
  have c: "c = \<lparr>token = tok, listeners = [connectionOpen, connectionError, disconnected, connectionClose]\<rparr>"
    using createConnection_value [OF created] by (simp add: tok_def)
  have "timers (dispatch c connectionClose ctx w) = timers w @ [1000]"
    and "bus (dispatch c connectionClose ctx w) = bus w"
    by (simp_all add: c dispatch_registered timers_listener bus_listener del: listener.simps)
  moreover have "fire_timer tr c (v\<lparr>timers := 1000 # rest\<rparr>) =
      reopen_callback tr c (v\<lparr>timers := rest\<rparr>)"
    by (simp add: fire_timer_def)
  moreover have "\<exists>more. bus (reopen_callback tr c v) =
      bus v @ AMQP_CONNECTION_DISCONNECTED # more"
    using bus_reopen_callback [of tr tok v] by (simp add: c)
  ultimately show ?thesis
    by (simp add: opens_dispatch opens_reopen_callback)
qed

theorem close_listener_schedules_reopen_witness:
  "fst (createConnection default_token steady_broker (Some plain_options) idle_world) =
     Inr (Value default_connection) \<and>
   timers (dispatch default_connection connectionClose (Some ''amqp:connection:forced'')
             idle_world) = [1000] \<and>
   timers (dispatch default_connection connectionClose None idle_world) = [1000] \<and>
   bus (reopen_callback unreachable default_connection idle_world) =
     [AMQP_CONNECTION_DISCONNECTED] \<and>
   opens (reopen_callback unreachable default_connection idle_world) = 1"
  using close_listener_schedules_reopen [where getConnectionToken = default_token
      and trc = steady_broker and options = plain_options and wc = idle_world
      and c = default_connection and ctx = "Some ''amqp:connection:forced''"
      and w = idle_world]
    close_listener_schedules_reopen [where getConnectionToken = default_token
      and trc = steady_broker and options = plain_options and wc = idle_world
      and c = default_connection and ctx = None and w = idle_world
      and tr = unreachable and v = idle_world]
  by (simp add: createConnection_def Let_def connection_open_def steady_broker_def opened_def
      unreachable_def rejected_def reopen_callback_def emit_def
      default_token_def default_connection_def idle_world_def plain_options_def
      on_def container_createConnection_def dispatch_def logger_def)

text \<open>
  C4, as stated, fails: a close by the peer that the transport reports with
  \<open>connectionClose\<close> and \<open>disconnected\<close>, followed by the successful reopen of the close
  listener's callback, puts \<open>AMQP_CONNECTION_DISCONNECTED\<close> on the bus twice before
  \<open>AMQP_CONNECTION_RECONNECT\<close>.
\<close>

theorem peer_close_reconnect_counterexample:
  "fst (createConnection default_token steady_broker (Some plain_options) idle_world) =
     Inr (Value default_connection) \<and>
   bus (run steady_broker default_connection
       [Dispatch connectionClose (Some ''amqp:connection:forced''),
        Dispatch disconnected (Some ''amqp:connection:forced''), TimerFires]
       (snd (createConnection default_token steady_broker (Some plain_options) idle_world))) =
     [AMQP_CONNECTION_DISCONNECTED, AMQP_CONNECTION_DISCONNECTED, AMQP_CONNECTION_RECONNECT]"
  by (simp add: createConnection_def Let_def connection_open_def run_def fire_timer_def
      reopen_callback_def truthy_def setTimeout_def
      steady_broker_def opened_def idle_world_def plain_options_def
      default_token_def default_connection_def dispatch_def on_def
      container_createConnection_def logger_def emit_def)

text \<open>
  C4, amended. Take a disconnect by the peer for which the transport raises, among its
  events, \<open>m\<close> times \<open>disconnected\<close>. If it also raises \<open>connectionClose\<close> once and the
  reopen of the close listener's callback succeeds (the transport raising no
  \<open>disconnected\<close> during that \<open>open()\<close>), the bus receives \<open>m + 1\<close> times
  \<open>AMQP_CONNECTION_DISCONNECTED\<close>, the last one for the callback's synthesized dispatch,
  and then exactly one \<open>AMQP_CONNECTION_RECONNECT\<close>. If it raises no \<open>connectionClose\<close>,
  the service makes no reopen: the bus receives \<open>AMQP_CONNECTION_DISCONNECTED\<close> \<open>m\<close> times
  and no \<open>AMQP_CONNECTION_RECONNECT\<close>. And with a transport that raises \<open>disconnected\<close>
  whenever it rejects an \<open>open()\<close>, no \<open>AMQP_CONNECTION_RECONNECT\<close> is ever on the bus
  without an \<open>AMQP_CONNECTION_DISCONNECTED\<close> before it: not after \<open>createConnection\<close>,
  whose retry loop emits the event too, and not after any run of the event loop that
  follows.
\<close>

theorem reconnect_follows_every_disconnected:
  assumes created: "fst (createConnection getConnectionToken trc (Some options) wc) = Inr (Value c)"
    and idle: "timers w = []"
    and closed: "count_list (map fst evs) connectionClose = 1"
    and ok: "resolved (tr (opens w))"
    and quiet: "disconnected \<notin> fst ` set (dispatched (tr (opens w)))"
    and unclosed: "connectionClose \<notin> fst ` set evs'"
    and loud: "\<And>n. resolved (tr' n) \<or> disconnected \<in> fst ` set (dispatched (tr' n))"
    and init: "reconnect_announced (bus w')"
  shows "bus (run tr c (dispatches evs @ [TimerFires]) w) =
           bus w @ replicate (count_list (map fst evs) disconnected) AMQP_CONNECTION_DISCONNECTED @
             [AMQP_CONNECTION_DISCONNECTED, AMQP_CONNECTION_RECONNECT] \<and>
         bus (run tr c (dispatches evs' @ [TimerFires]) w) =
           bus w @ replicate (count_list (map fst evs') disconnected) AMQP_CONNECTION_DISCONNECTED \<and>
         reconnect_announced (bus (run tr'
           \<lparr>token = getConnectionToken' (Some (Inl options')),
            listeners = [connectionOpen, connectionError, disconnected, connectionClose]\<rparr>
           steps (snd (createConnection getConnectionToken' tr' (Some options') w'))))"
proof -
  define tok where "tok = getConnectionToken (Some (Inl options))"
  have c: "c = \<lparr>token = tok, listeners = [connectionOpen, connectionError, disconnected, connectionClose]\<rparr>"
    using createConnection_value [OF created] by (simp add: tok_def)
  define w1 where "w1 = run tr c (dispatches evs) w"
  have w1: "bus w1 = bus w @ replicate (count_list (map fst evs) disconnected)
        AMQP_CONNECTION_DISCONNECTED"
      "timers w1 = [1000]" "opens w1 = opens w"
    using run_dispatches [of tr tok evs w] idle closed by (simp_all add: w1_def c)
  have "run tr c (dispatches evs @ [TimerFires]) w = fire_timer tr c w1"
    by (simp add: run_append w1_def run_def)
  also have "\<dots> = reopen_callback tr c (w1\<lparr>timers := []\<rparr>)"
    by (simp add: fire_timer_def w1)
  finally have "bus (run tr c (dispatches evs @ [TimerFires]) w) =
      bus (w1\<lparr>timers := []\<rparr>) @ [AMQP_CONNECTION_DISCONNECTED, AMQP_CONNECTION_RECONNECT]"
    using bus_reopen_callback_resolved [of tr "w1\<lparr>timers := []\<rparr>" tok] ok quiet
    by (simp add: c w1)
  moreover have "bus (run tr c (dispatches evs' @ [TimerFires]) w) =
      bus w @ replicate (count_list (map fst evs') disconnected) AMQP_CONNECTION_DISCONNECTED"
  proof -
    from unclosed have none: "count_list (map fst evs') connectionClose = 0"
      by (simp add: count_list_0_iff)
    define w2 where "w2 = run tr c (dispatches evs') w"
    have w2: "bus w2 = bus w @ replicate (count_list (map fst evs') disconnected)
          AMQP_CONNECTION_DISCONNECTED" "timers w2 = []"
      using run_dispatches [of tr tok evs' w] idle none by (simp_all add: w2_def c)
    have "run tr c (dispatches evs' @ [TimerFires]) w = fire_timer tr c w2"
      by (simp add: run_append w2_def run_def)
    then show ?thesis
      by (simp add: fire_timer_def w2)
  qed
  moreover have "reconnect_announced (bus (snd (createConnection getConnectionToken' tr'
      (Some options') w')))"
    using loud init by (rule createConnection_announced)
  then have "reconnect_announced (bus (run tr'
           \<lparr>token = getConnectionToken' (Some (Inl options')),
            listeners = [connectionOpen, connectionError, disconnected, connectionClose]\<rparr>
           steps (snd (createConnection getConnectionToken' tr' (Some options') w'))))"
    by (rule run_announced)
  ultimately show ?thesis
    by (simp add: w1)
qed

theorem reconnect_follows_every_disconnected_witness:
  "fst (createConnection default_token steady_broker (Some plain_options) idle_world) =
     Inr (Value default_connection) \<and>
   timers idle_world = [] \<and>
   count_list (map fst [(disconnected, Some ''reset''), (connectionError, Some ''reset''),
     (connectionClose, Some ''reset'')]) connectionClose = 1 \<and>
   resolved (steady_broker (opens idle_world)) \<and>
   disconnected \<notin> fst ` set (dispatched (steady_broker (opens idle_world))) \<and>
   connectionClose \<notin> fst ` set [(disconnected, Some ''reset'')] \<and>
   (\<forall>n. resolved (refusing_once n) \<or> disconnected \<in> fst ` set (dispatched (refusing_once n))) \<and>
   reconnect_announced (bus idle_world) \<and>
   bus (run steady_broker default_connection
       (dispatches [(disconnected, Some ''reset''), (connectionError, Some ''reset''),
          (connectionClose, Some ''reset'')] @ [TimerFires]) idle_world) =
     [AMQP_CONNECTION_DISCONNECTED, AMQP_CONNECTION_DISCONNECTED, AMQP_CONNECTION_RECONNECT] \<and>
   bus (run steady_broker default_connection
       (dispatches [(disconnected, Some ''reset'')] @ [TimerFires]) idle_world) =
     [AMQP_CONNECTION_DISCONNECTED] \<and>
   bus (run refusing_once default_connection []
       (snd (createConnection default_token refusing_once (Some plain_options) idle_world))) =
     [AMQP_CONNECTION_DISCONNECTED, AMQP_CONNECTION_RECONNECT]"
  using reconnect_follows_every_disconnected [where getConnectionToken = default_token
      and trc = steady_broker and options = plain_options and wc = idle_world
      and c = default_connection and w = idle_world and tr = steady_broker
      and evs = "[(disconnected, Some ''reset''), (connectionError, Some ''reset''),
          (connectionClose, Some ''reset'')]"
      and evs' = "[(disconnected, Some ''reset'')]"
      and tr' = refusing_once and w' = idle_world and getConnectionToken' = default_token
      and options' = plain_options and steps = "[]"]
  by (simp add: createConnection_def Let_def connection_open_def run_def fire_timer_def
      reopen_callback_def truthy_def setTimeout_def dispatches_def reopen_loop.simps
      steady_broker_def opened_def refusing_once_def idle_world_def plain_options_def
      default_token_def default_connection_def dispatch_def on_def sleep_idle
      container_createConnection_def logger_def emit_def reconnect_delay_def retry_limit_def)

text \<open>
  C5, as stated, fails: the callback's \<open>catch\<close> only logs. A connection opens, closes,
  and the broker refuses the reopen of the callback; however often the event loop then
  looks for a timer, no second reopen attempt is made and none is pending.
\<close>

theorem close_reopen_not_retried_counterexample:
  "fst (createConnection default_token lost_broker (Some plain_options) idle_world) =
     Inr (Value default_connection) \<and>
   opens (run lost_broker default_connection
            [Dispatch connectionClose None, TimerFires, TimerFires, TimerFires]
            (snd (createConnection default_token lost_broker (Some plain_options) idle_world)))
     = 2 \<and>
   timers (run lost_broker default_connection
            [Dispatch connectionClose None, TimerFires, TimerFires, TimerFires]
            (snd (createConnection default_token lost_broker (Some plain_options) idle_world)))
     = []"
  by (simp add: createConnection_def Let_def connection_open_def run_def fire_timer_def
      reopen_callback_def truthy_def setTimeout_def
      lost_broker_def rejected_def opened_def idle_world_def plain_options_def
      default_token_def default_connection_def dispatch_def on_def
      container_createConnection_def logger_def emit_def)

text \<open>
  C5, amended: after a \<open>connectionClose\<close> event the service waits a fixed 1000 ms and
  then makes one reopen attempt. Whether that attempt succeeds or fails, the service
  schedules no further attempt unless the transport reports another \<open>connectionClose\<close>.
\<close>

theorem close_schedules_one_reopen:
  assumes created: "fst (createConnection getConnectionToken trc (Some options) wc) = Inr (Value c)"
    and idle: "timers w = []"
    and quiet: "connectionClose \<notin> fst ` set (dispatched (tr (opens w)))"
  shows "timers (dispatch c connectionClose ctx w) = [1000] \<and>
         opens (dispatch c connectionClose ctx w) = opens w \<and>
         opens (fire_timer tr c (dispatch c connectionClose ctx w)) = Suc (opens w) \<and>
         timers (fire_timer tr c (dispatch c connectionClose ctx w)) = []"
proof -
  define tok where "tok = getConnectionToken (Some (Inl options))"
  have c: "c = \<lparr>token = tok, listeners = [connectionOpen, connectionError, disconnected, connectionClose]\<rparr>"
    using createConnection_value [OF created] by (simp add: tok_def)
  define wa where "wa = (dispatch c connectionClose ctx w)\<lparr>timers := []\<rparr>"
  have scheduled: "timers (dispatch c connectionClose ctx w) = [1000]"
    using idle by (simp add: c dispatch_registered timers_listener del: listener.simps)
  have waiting: "opens (dispatch c connectionClose ctx w) = opens w"
    by (simp add: opens_dispatch)
  have fire: "fire_timer tr c (dispatch c connectionClose ctx w) = reopen_callback tr c wa"
    using scheduled by (simp add: fire_timer_def wa_def)
  have wa: "opens wa = opens w" "timers wa = []"
    by (simp_all add: wa_def opens_dispatch)
  have "timers (reopen_callback tr c wa) = timers wa"
    using timers_reopen_callback [of tr wa tok] quiet by (simp add: c wa)
  with scheduled waiting fire wa show ?thesis
    by (simp add: opens_reopen_callback)
qed

theorem close_schedules_one_reopen_witness:
  "fst (createConnection default_token lost_broker (Some plain_options) idle_world) =
     Inr (Value default_connection) \<and>
   timers idle_world = [] \<and>
   connectionClose \<notin> fst ` set (dispatched (unreachable (opens idle_world))) \<and>
   timers (dispatch default_connection connectionClose None idle_world) = [1000] \<and>
   opens (fire_timer unreachable default_connection
            (dispatch default_connection connectionClose None idle_world)) = 1 \<and>
   timers (fire_timer unreachable default_connection
            (dispatch default_connection connectionClose None idle_world)) = []"
  using close_schedules_one_reopen [of default_token lost_broker plain_options idle_world
      default_connection idle_world unreachable None]
  by (simp add: createConnection_def Let_def connection_open_def lost_broker_def opened_def
      unreachable_def rejected_def
      default_token_def default_connection_def idle_world_def plain_options_def
      on_def container_createConnection_def dispatch_def logger_def)

section \<open>Claims about \<open>createReceiver\<close>\<close>

text \<open>
  C7: \<open>createReceiver\<close> grants exactly \<open>credits\<close> on attach, on top of what the attached
  link holds, for every \<open>credits\<close> that is not negative. When the link's open confirmation
  arrives and the receiver's credit is \<open>k\<close>, the listener leaves it at \<open>credits\<close> if \<open>k\<close>
  was below, and at \<open>k\<close> otherwise.
\<close>

theorem createReceiver_grants_and_tops_up:
  assumes created: "fst (createReceiver moduleRef attach options w) = Inr r"
  shows "(\<exists>c attached. moduleRef (connectionToken options) = Some (Value c) \<and>
            attach c (receiverOptions options) = Inr attached \<and>
            (0 \<le> credits options \<longrightarrow> credit r = credit attached + credits options)) \<and>
         credit (fst (receiver_dispatch (credits options) receiverOpen (r\<lparr>credit := k\<rparr>, v))) =
           (if k < credits options then credits options else k)"
proof -
  from createReceiver_value [OF created] obtain c attached where
    found: "moduleRef (connectionToken options) = Some (Value c)"
    and att: "attach c (receiverOptions options) = Inr attached"
    and r: "r = \<lparr>receiver_name = receiver_name attached,
                credit = credit attached + max 0 (credits options),
                receiver_listeners = receiver_listeners attached @
                  [receiverOpen, receiverClose, receiverDrained, receiverFlow, settled]\<rparr>"
    by blast
  have "receiverOpen \<in> set (receiver_listeners (r\<lparr>credit := k\<rparr>))"
    by (simp add: r)
  then have "credit (fst (receiver_dispatch (credits options) receiverOpen (r\<lparr>credit := k\<rparr>, v))) =
      (if k < credits options then credits options else k)"
    by (simp add: receiver_dispatch_def credit_fold_receiver_listener)
  moreover have "0 \<le> credits options \<longrightarrow> credit r = credit attached + credits options"
    by (simp add: r)
  ultimately show ?thesis
    using found att by blast
qed

theorem createReceiver_grants_and_tops_up_witness:
  "fst (createReceiver unopened_registry attach_link demo_receiver_options idle_world) =
     Inr (fresh_receiver\<lparr>credit := 2, receiver_listeners :=
            [receiverOpen, receiverClose, receiverDrained, receiverFlow, settled]\<rparr>) \<and>
   0 \<le> credits demo_receiver_options \<and>
   credit (fst (receiver_dispatch (credits demo_receiver_options) receiverOpen
     (fresh_receiver\<lparr>credit := 0, receiver_listeners :=
            [receiverOpen, receiverClose, receiverDrained, receiverFlow, settled]\<rparr>,
      idle_world))) = 2"
  using createReceiver_grants_and_tops_up [where moduleRef = unopened_registry
      and attach = attach_link and options = demo_receiver_options and w = idle_world
      and r = "fresh_receiver\<lparr>credit := 2, receiver_listeners :=
            [receiverOpen, receiverClose, receiverDrained, receiverFlow, settled]\<rparr>"
      and k = 0 and v = idle_world]
  by (simp add: createReceiver_def moduleRef_get_def unopened_registry_def attach_link_def
      demo_receiver_options_def fresh_receiver_def addCredit_def receiver_on_def Let_def)

text \<open>
  C6, as stated, fails twice. \<open>createReceiver\<close> adds the prefetch to what the attached
  link already holds: on a link attached with a credit window of 1000, a prefetch of 2
  gives a credit of 1002. And on a link attached without credit, a delivery, the open
  confirmation and the disposition of that delivery leave a credit of 3 for a prefetch
  of 2.
\<close>

theorem credit_above_prefetch_counterexample:
  "credits demo_receiver_options = 2 \<and>
   fst (createReceiver unopened_registry attach_windowed demo_receiver_options idle_world) =
     Inr (fresh_receiver\<lparr>credit := 1002, receiver_listeners :=
            [receiverOpen, receiverClose, receiverDrained, receiverFlow, settled]\<rparr>) \<and>
   fst (createReceiver unopened_registry attach_link demo_receiver_options idle_world) =
     Inr (fresh_receiver\<lparr>credit := 2, receiver_listeners :=
            [receiverOpen, receiverClose, receiverDrained, receiverFlow, settled]\<rparr>) \<and>
   credit (link_receiver (link_run 2
      \<lparr>link_receiver = fresh_receiver\<lparr>credit := 2, receiver_listeners :=
            [receiverOpen, receiverClose, receiverDrained, receiverFlow, settled]\<rparr>,
       in_flight = 0, link_world = idle_world\<rparr>
      [Delivery, OpenConfirmation, Disposition])) = 3"
  by (simp add: createReceiver_def moduleRef_get_def unopened_registry_def attach_windowed_def
      attach_link_def demo_receiver_options_def fresh_receiver_def addCredit_def receiver_on_def
      Let_def link_run_def receiver_dispatch_def logger_def idle_world_def)

text \<open>
  C6, amended: when \<open>createReceiver\<close> attaches a receiver with prefetch \<open>P\<close> on a link
  that holds a credit \<open>c \<ge> 0\<close>, the receiver starts with credit \<open>c + max 0 P\<close>, and across
  every sequence of deliveries, dispositions and open confirmations its credit is never
  negative and never exceeds \<open>c + (1 + k) * max 0 P\<close>, where \<open>k\<close> is the number of open
  confirmations in the sequence.
\<close>

theorem credit_within_granted:
  assumes provider: "moduleRef (connectionToken options) = Some (Value c)"
    and attached: "attach c (receiverOptions options) = Inr a"
    and held: "0 \<le> credit a"
  shows "\<exists>r. fst (createReceiver moduleRef attach options w) = Inr r \<and>
           credit r = credit a + max 0 (credits options) \<and>
           0 \<le> credit (link_receiver (link_run (credits options)
                  \<lparr>link_receiver = r, in_flight = 0, link_world = v\<rparr> evs)) \<and>
           credit (link_receiver (link_run (credits options)
                  \<lparr>link_receiver = r, in_flight = 0, link_world = v\<rparr> evs)) \<le>
             credit a + (1 + int (count_list evs OpenConfirmation)) * max 0 (credits options)"
proof -
  obtain r where created: "fst (createReceiver moduleRef attach options w) = Inr r"
    using provider attached
    by (simp add: createReceiver_def moduleRef_get_def Let_def)
  from createReceiver_value [OF created] provider attached
  have granted: "credit r = credit a + max 0 (credits options)"
    by auto
  define s where "s = \<lparr>link_receiver = r, in_flight = 0, link_world = v\<rparr>"
  have "0 \<le> credit (link_receiver s)"
    and "credit (link_receiver s) + int (in_flight s) \<le> credit a + max 0 (credits options)"
    using held by (simp_all add: s_def granted)
  from link_run_bounds [OF this, of "credits options" evs]
  have "0 \<le> credit (link_receiver (link_run (credits options) s evs)) \<and>
      credit (link_receiver (link_run (credits options) s evs)) \<le>
        credit a + (1 + int (count_list evs OpenConfirmation)) * max 0 (credits options)"
    by (simp add: algebra_simps)
  with created granted show ?thesis
    unfolding s_def by blast
qed

theorem credit_within_granted_witness:
  "unopened_registry (connectionToken demo_receiver_options) = Some (Value default_connection) \<and>
   attach_link default_connection (receiverOptions demo_receiver_options) = Inr fresh_receiver \<and>
   0 \<le> credit fresh_receiver \<and>
   fst (createReceiver unopened_registry attach_link demo_receiver_options idle_world) =
     Inr (fresh_receiver\<lparr>credit := 2, receiver_listeners :=
            [receiverOpen, receiverClose, receiverDrained, receiverFlow, settled]\<rparr>) \<and>
   credit (link_receiver (link_run (credits demo_receiver_options)
      \<lparr>link_receiver = fresh_receiver\<lparr>credit := 2, receiver_listeners :=
            [receiverOpen, receiverClose, receiverDrained, receiverFlow, settled]\<rparr>,
       in_flight = 0, link_world = idle_world\<rparr>
      [Delivery, Delivery, Delivery, Disposition, OpenConfirmation, Disposition])) = 3"
  using credit_within_granted [where moduleRef = unopened_registry
      and attach = attach_link and options = demo_receiver_options and w = idle_world
      and c = default_connection and a = fresh_receiver and v = idle_world
      and evs = "[Delivery, Delivery, Delivery, Disposition, OpenConfirmation, Disposition]"]
  by (simp add: createReceiver_def moduleRef_get_def unopened_registry_def attach_link_def
      demo_receiver_options_def fresh_receiver_def addCredit_def receiver_on_def Let_def
      link_run_def receiver_dispatch_def logger_def idle_world_def)

section \<open>Claims about \<open>createSender\<close>\<close>

text \<open>
  C8, as stated, fails: \<open>createSender\<close> never asks whether the connection is open. The
  connection that \<open>createConnection\<close> returned after every \<open>open()\<close> was refused is
  bound to its token, and \<open>createSender\<close> resolves with the sender the transport makes on
  it.
\<close>

theorem createSender_unopened_counterexample:
  "fst (createConnection default_token unreachable (Some plain_options) idle_world) =
     Inr (Value default_connection) \<and>
   unopened_registry (default_token (Some (Inr ''default''))) = Some (Value default_connection) \<and>
   createSender default_token unopened_registry willing_link
     \<lparr>connectionName = Some ''default'', senderOptions = ()\<rparr> =
     Inr (fresh_sender\<lparr>sender_listeners :=
            [senderOpen, senderClose, senderError, senderDraining]\<rparr>)"
  by (simp add: createConnection_def Let_def connection_open_def reopen_loop.simps
      unreachable_def rejected_def idle_world_def plain_options_def
      default_token_def default_connection_def dispatch_def on_def
      container_createConnection_def logger_def sleep_idle emit_def reconnect_delay_def
      retry_limit_def createSender_def moduleRef_get_def unopened_registry_def
      willing_link_def fresh_sender_def sender_on_def)

text \<open>
  C8, amended: \<open>createSender\<close> fails with \<open>ConnectionNotFoundError\<close> exactly when the
  container has no provider for the resolved token. When a connection is bound to the
  token, open or not, the call is the transport's: its rejection, or its sender with the
  four listeners. No connection is created either way.
\<close>

theorem createSender_fails_without_provider:
  "(createSender getConnectionToken moduleRef createAwaitableSender options =
      Inl (ConnectionNotFoundError t)) =
   (moduleRef (getConnectionToken (map_option Inr (connectionName options))) = None \<and>
    t = getConnectionToken (map_option Inr (connectionName options))) \<and>
   (moduleRef (getConnectionToken (map_option Inr (connectionName options))) = Some (Value c)
    \<longrightarrow> createSender getConnectionToken moduleRef createAwaitableSender options =
      (case createAwaitableSender c (senderOptions options) of
         Inl reason \<Rightarrow> Inl (TransportError reason)
       | Inr s \<Rightarrow> Inr (s\<lparr>sender_listeners := sender_listeners s @
            [senderOpen, senderClose, senderError, senderDraining]\<rparr>)))"
  by (auto simp add: createSender_def moduleRef_get_def Let_def sender_on_def
      split: option.splits retval.splits sum.splits)

theorem createSender_fails_without_provider_witness:
  "Map.empty (default_token (map_option Inr (connectionName default_sender_options))) = None \<and>
   createSender default_token Map.empty willing_link default_sender_options =
     Inl (ConnectionNotFoundError ''default'') \<and>
   unopened_registry (default_token (map_option Inr (connectionName default_sender_options))) =
     Some (Value default_connection) \<and>
   createSender default_token unopened_registry willing_link default_sender_options =
     Inr (fresh_sender\<lparr>sender_listeners :=
            [senderOpen, senderClose, senderError, senderDraining]\<rparr>)"
  using createSender_fails_without_provider [where getConnectionToken = default_token
      and moduleRef = Map.empty and createAwaitableSender = willing_link
      and options = default_sender_options and t = "''default''"]
    createSender_fails_without_provider [where getConnectionToken = default_token
      and moduleRef = unopened_registry and createAwaitableSender = willing_link
      and options = default_sender_options and c = default_connection]
  by (simp add: default_token_def default_sender_options_def unopened_registry_def
      willing_link_def fresh_sender_def)

end
